(* ===== verification/Prelude.thy ===== *)
theory Prelude
  imports Main "HOL-Library.Sublist"
begin

text \<open>
  Shared vocabulary of the development: the Python string operations the referee
  pipeline relies on (\<open>str.startswith\<close>, \<open>str.lower\<close>, \<open>str.strip\<close>,
  \<open>str.capitalize\<close>) on \<open>string\<close> (a list of byte-sized \<open>char\<close>s), the
  collections of facts the component theories feed, and generic lemmas on the
  sum type used for raised exceptions and on list prefixes used for the
  append-only transcripts.
\<close>

named_theorems node_defs "unfoldings of the LangGraph node functions"
named_theorems node_frames "what a node function leaves unchanged (used as destruction rules)"

section \<open>Python string operations\<close>

text \<open>\<open>s.startswith(p)\<close>, by recursion on both strings.\<close>

fun startswith :: "string \<Rightarrow> string \<Rightarrow> bool" where
  "startswith s [] = True"
| "startswith [] (p # ps) = False"
| "startswith (c # s) (p # ps) = (c = p \<and> startswith s ps)"

text \<open>
  \<open>str.lower\<close> on one character. Only the ASCII capitals \<open>A\<close>..\<open>Z\<close> change; the
  bytes of a non-ASCII code point are all above 127 and are left alone, which agrees
  with Python wherever the result is compared with an ASCII literal.
\<close>

definition lower_char :: "char \<Rightarrow> char" where
  "lower_char c =
     (let n = (of_char c :: nat) in if 65 \<le> n \<and> n \<le> 90 then char_of (n + 32) else c)"

definition upper_char :: "char \<Rightarrow> char" where
  "upper_char c =
     (let n = (of_char c :: nat) in if 97 \<le> n \<and> n \<le> 122 then char_of (n - 32) else c)"

definition py_lower :: "string \<Rightarrow> string" where
  "py_lower s = map lower_char s"

text \<open>\<open>str.capitalize\<close>: the first character upper case, the rest lower case.\<close>

fun py_capitalize :: "string \<Rightarrow> string" where
  "py_capitalize [] = []"
| "py_capitalize (c # s) = upper_char c # py_lower s"

text \<open>
  \<open>str.isspace\<close> on one byte: the ASCII whitespace Python strips (tab, line feed,
  vertical tab, form feed, carriage return, the separators 28 to 31, and space).
\<close>

definition is_py_space :: "char \<Rightarrow> bool" where
  "is_py_space c = (let n = (of_char c :: nat) in (9 \<le> n \<and> n \<le> 13) \<or> (28 \<le> n \<and> n \<le> 32))"

definition py_strip :: "string \<Rightarrow> string" where
  "py_strip s = rev (dropWhile is_py_space (rev (dropWhile is_py_space s)))"

text \<open>\<open>str(n)\<close> on a non-negative integer: its decimal digits.\<close>

fun py_str_nat :: "nat \<Rightarrow> string" where
  "py_str_nat n =
     (if n < 10 then [char_of (48 + n)] else py_str_nat (n div 10) @ [char_of (48 + n mod 10)])"

declare py_str_nat.simps [simp del]

text \<open>\<open>str(i)\<close> on an integer: a minus sign, then the digits of its magnitude.\<close>

definition py_str_int :: "int \<Rightarrow> string" where
  "py_str_int i = (if i < 0 then CHR ''-'' # py_str_nat (nat (- i)) else py_str_nat (nat i))"

text \<open>\<open>sep.join(xs)\<close>: the strings with the separator between neighbours.\<close>

fun py_join :: "string \<Rightarrow> string list \<Rightarrow> string" where
  "py_join sep [] = []"
| "py_join sep [x] = x"
| "py_join sep (x # y # xs) = x @ sep @ py_join sep (y # xs)"

text \<open>
  Evaluating a Python list comprehension whose items may raise: the items in order, or
  the first exception.
\<close>

fun sequence_sum :: "('e + 'a) list \<Rightarrow> 'e + 'a list" where
  "sequence_sum [] = Inr []"
| "sequence_sum (Inl e # rs) = Inl e"
| "sequence_sum (Inr x # rs) = map_sum id (Cons x) (sequence_sum rs)"

section \<open>Generic lemmas\<close>

lemma py_join_snoc:
  "py_join sep (xs @ [x]) = (if xs = [] then x else py_join sep xs @ sep @ x)"
  by (induction sep xs rule: py_join.induct) auto

lemma startswith_take: "startswith s p \<longleftrightarrow> take (length p) s = p"
  by (induction s p rule: startswith.induct) auto

lemma startswith_append [simp]: "startswith (p @ s) p"
  by (simp add: startswith_take)

lemma lower_char_idem [simp]: "lower_char (lower_char c) = lower_char c"
proof -
  have "of_char (char_of (n + 32) :: char) = n + (32::nat)" if "65 \<le> n" "n \<le> 90" for n :: nat
    using that by (simp add: of_char_of)
  then show ?thesis
    by (auto simp: lower_char_def Let_def)
qed

lemma py_lower_idem [simp]: "py_lower (py_lower s) = py_lower s"
  by (simp add: py_lower_def)

lemma py_lower_length [simp]: "length (py_lower s) = length s"
  by (simp add: py_lower_def)

lemma dropWhile_idem: "dropWhile P (dropWhile P xs) = dropWhile P xs"
  by (induction xs) auto

lemma prefix_append_right [simp]: "prefix xs (xs @ ys)"
  by simp

lemma prefix_snoc_trans: "prefix xs ys \<Longrightarrow> prefix xs (ys @ [y])"
  by (metis prefix_append prefix_order.trans prefix_append_right)

text \<open>A raised exception is the left injection of the sum; a normal return the right.\<close>

lemma sum_case_Inr_eq:
  "(case r of Inl e \<Rightarrow> Inl e | Inr x \<Rightarrow> f x) = Inr y \<longleftrightarrow> (\<exists>x. r = Inr x \<and> f x = Inr y)"
  by (cases r) auto

lemma map_sum_pair_Inr [simp]:
  "map_sum id (\<lambda>x. (x, a)) r = Inr (y, b) \<longleftrightarrow> r = Inr y \<and> b = a"
  by (cases r) auto

lemma map_sum_pair_Inl [simp]:
  "map_sum id (\<lambda>x. (x, a)) r = Inl e \<longleftrightarrow> r = Inl e"
  by (cases r) auto

lemma map_sum_id_Inl [simp]: "map_sum id f r = Inl e \<longleftrightarrow> r = Inl e"
  by (cases r) auto

lemma map_sum_Inr_exists: "map_sum f g r = Inr y \<Longrightarrow> \<exists>x. r = Inr x \<and> g x = y"
  by (cases r) auto

lemma sequence_sum_map_Inr [simp]: "sequence_sum (map Inr xs) = Inr xs"
  by (induction xs) auto

lemma sequence_sum_Inr: "sequence_sum rs = Inr xs \<longleftrightarrow> rs = map Inr xs"
proof
  show "sequence_sum rs = Inr xs \<Longrightarrow> rs = map Inr xs"
    by (induction rs arbitrary: xs rule: sequence_sum.induct) (auto dest!: map_sum_Inr_exists)
qed simp

lemma sequence_sum_length: "sequence_sum rs = Inr xs \<Longrightarrow> length xs = length rs"
  by (induction rs arbitrary: xs rule: sequence_sum.induct) (auto dest!: map_sum_Inr_exists)

end
