(* ===== verification/Session.thy ===== *)
theory Session
  imports Prelude
begin

text \<open>
  The data of \<open>src/langchain_referee.py\<close>: the JSON objects the nodes exchange,
  the LangGraph state dictionary \<open>StateDict\<close> as a record, the step catalog
  \<open>SOP_STEPS\<close> with its loader and \<open>get_sop_step_description\<close>, the exceptions
  the code can raise, and the stream of answers the external collaborators (the three
  chat models and the console) give.
\<close>

section \<open>Exceptions\<close>

text \<open>
  What the code raises: \<open>KeyError\<close> (\<open>SOP_STEPS[n]\<close> for a missing step),
  \<open>TypeError\<close> (subscripting \<open>None\<close>), \<open>AttributeError\<close> (\<open>None.get\<close>),
  \<open>OutputParserException\<close> (\<open>JsonOutputParser().parse\<close> on a reply that is not
  JSON), \<open>RuntimeError\<close> (line 410, too many grader retries), \<open>EOFError\<close>
  (\<open>input()\<close> at end of input), LangGraph's \<open>GraphRecursionError\<close> (its step
  budget spent), \<open>IndexError\<close> (\<open>xs[0]\<close> on an empty list), \<open>ValueError\<close>
  (\<open>int(s)\<close> on a string that is not a number) and
  \<open>LLM_failure\<close> (a chat model call that yields no reply).
\<close>

datatype error =
    KeyError | TypeError | AttributeError | OutputParserException
  | RuntimeError | EOFError | GraphRecursionError | IndexError | ValueError | LLM_failure

section \<open>Messages and JSON values\<close>

text \<open>
  What \<open>JsonOutputParser().parse\<close> returns for a reply that is JSON, as far as the
  code can tell it apart: an object with the keys of the schema the prompt asks for
  (the record \<open>'r\<close>), the empty object \<open>{}\<close> (falsy, and every subscript raises
  \<open>KeyError\<close>), or a value that is not an object (\<open>null\<close>, a boolean, a number,
  a string or an array), of which only its truthiness matters: subscripting it by a
  string key raises \<open>TypeError\<close>. A non-empty object is taken to carry the schema's
  keys.
\<close>

datatype 'r json = Object 'r | Empty_object | Not_object bool

text \<open>
  A state field holding such a value, or Python's \<open>None\<close> (\<open>None\<close> here): its
  truthiness (\<open>if x:\<close>) and the subscript \<open>x[key]\<close>, which yields the object or
  raises.
\<close>

fun truthy :: "'r json option \<Rightarrow> bool" where
  "truthy None = False"
| "truthy (Some (Object r)) = True"
| "truthy (Some Empty_object) = False"
| "truthy (Some (Not_object b)) = b"

fun subscript :: "'r json option \<Rightarrow> error + 'r" where
  "subscript (Some (Object r)) = Inr r"
| "subscript (Some Empty_object) = Inl KeyError"
| "subscript (Some (Not_object b)) = Inl TypeError"
| "subscript None = Inl TypeError"

text \<open>
  A key of a JSON object read with \<open>.get\<close>: absent, present with the value
  \<open>null\<close>, or present with a value.
\<close>

datatype 'a jfield = Key_missing | Key_null | Key_value 'a

text \<open>The \<open>"role"\<close> of a dialogue message: \<open>"coach"\<close> or \<open>"user"\<close>.\<close>

datatype role = Coach_role | User_role

text \<open>\<open>{"role": ..., "content": ...}\<close>, the shape of \<open>input_message\<close>.\<close>

datatype msg = Msg (msg_role: role) (content: string)

text \<open>
  The grader's JSON object (the schema of \<open>GRADER_GRADING_PROMPT\<close>, lines 55--60, and
  the dictionaries the node builds itself): \<open>message\<close>, \<open>current_step\<close>,
  \<open>step_passed\<close>.
\<close>

record grader_json =
  g_message :: string
  g_current_step :: int
  step_passed :: bool

text \<open>
  The referee's JSON (\<open>REFEREE_SYSTEM_PROMPT\<close>, lines 134--141). The dictionary the
  node builds on missing inputs (line 308) carries \<open>feedback\<close> and no \<open>message\<close>,
  so both keys are optional.
\<close>

record referee_json =
  referee_grade :: string
  r_message :: "string option"
  r_feedback :: "string option"
  must_regenerate :: bool

text \<open>
  An entry of \<open>history\<close> or \<open>dialogue_history\<close>: a dialogue message, a grader
  dictionary (interaction mode appends \<open>last_grader\<close>, line 271), or Python's
  \<open>None\<close> (the orchestrator appends \<open>input_message\<close>, which may be \<open>None\<close>).
\<close>

datatype entry = Turn msg | Grader_note grader_json | Null_entry

definition entry_of :: "msg option \<Rightarrow> entry" where
  "entry_of m = (case m of None \<Rightarrow> Null_entry | Some x \<Rightarrow> Turn x)"

text \<open>
  The nodes of the graph (lines 420--424) and LangGraph's \<open>END\<close>; \<open>next_node\<close>
  holds one of these names or is absent.
\<close>

datatype node = Coach | User | Grader | Referee | Orchestrator | END

section \<open>The session state\<close>

text \<open>\<open>StateDict\<close>, lines 149--159. \<open>done\<close> is an Isar keyword, hence \<open>done_flag\<close>.\<close>

record state =
  current_step :: int
  grader_retries :: int
  done_flag :: bool
  last_grader :: "grader_json json option"
  last_referee :: "referee_json json option"
  history :: "entry list"
  input_message :: "msg option"
  coach_message :: "string option"
  dialogue_history :: "entry list"
  next_node :: "node option"

text \<open>The state \<open>run_simulation\<close> starts from, lines 450--460 (no \<open>next_node\<close> key).\<close>

definition init_state :: state where
  "init_state =
     \<lparr>current_step = 1, grader_retries = 0, done_flag = False, last_grader = None,
      last_referee = None, history = [], input_message = None, coach_message = None,
      dialogue_history = [], next_node = None\<rparr>"

text \<open>\<open>MAX_GRADER_RETRIES\<close>, line 43, and the final step hard-coded at lines 390--391.\<close>

abbreviation MAX_GRADER_RETRIES :: int where
  "MAX_GRADER_RETRIES \<equiv> 2"

abbreviation FINAL_STEP :: int where
  "FINAL_STEP \<equiv> 6"

section \<open>The step catalog\<close>

text \<open>
  A step of the sample file as \<open>get_sop_step_description\<close> (lines 549--550) reads
  it: \<open>step_name\<close>, \<open>step_number\<close>, and the \<open>rubric\<close> object with its
  \<open>description\<close>, both looked up with \<open>.get\<close>. A rubric that is \<open>null\<close>
  (\<open>Key_null\<close>) has no \<open>.get\<close>.
\<close>

record rubric =
  description :: "string jfield"
  example_message :: string

record sop_step =
  step_name :: string
  step_number :: int
  rubric :: "rubric jfield"

type_synonym catalog = "int \<rightharpoonup> sop_step"

text \<open>
  \<open>get_sop_step_description\<close>, lines 549--550: three \<open>.get\<close>s with defaults. A
  missing step or rubric falls back to \<open>"No description"\<close>; a \<open>null\<close> rubric
  raises \<open>AttributeError\<close> (\<open>None.get\<close>); a \<open>null\<close> description is returned as
  \<open>None\<close>, which every caller formats into a string as \<open>"None"\<close>.
\<close>

definition get_sop_step_description :: "catalog \<Rightarrow> int \<Rightarrow> error + string" where
  "get_sop_step_description sop n =
     (case sop n of
        None \<Rightarrow> Inr ''No description''
      | Some st \<Rightarrow>
          (case rubric st of
             Key_missing \<Rightarrow> Inr ''No description''
           | Key_null \<Rightarrow> Inl AttributeError
           | Key_value r \<Rightarrow>
               Inr (case description r of
                      Key_missing \<Rightarrow> ''No description'' | Key_null \<Rightarrow> ''None'' | Key_value d \<Rightarrow> d)))"

text \<open>
  Loading, lines 462--466: each step is stored under its number (a later step with the
  same number replacing an earlier one) and its description printed at once, which
  raises for a step whose rubric is \<open>null\<close>. \<open>SOP_STEPS\<close> starts empty
  (line 45).
\<close>

fun load_steps :: "catalog \<Rightarrow> sop_step list \<Rightarrow> error + catalog" where
  "load_steps m [] = Inr m"
| "load_steps m (st # sts) =
     (let m' = m(step_number st \<mapsto> st) in
      case get_sop_step_description m' (step_number st) of
        Inl e \<Rightarrow> Inl e
      | Inr _ \<Rightarrow> load_steps m' sts)"

text \<open>
  A step the nodes can work on: it is in the catalog and its rubric is not
  \<open>null\<close>.
\<close>

definition step_ready :: "catalog \<Rightarrow> int \<Rightarrow> bool" where
  "step_ready sop n \<longleftrightarrow> (case sop n of None \<Rightarrow> False | Some st \<Rightarrow> rubric st \<noteq> Key_null)"

text \<open>\<open>SOP_STEPS[n]\<close>: a subscript that raises on a missing key.\<close>

definition sop_index :: "catalog \<Rightarrow> int \<Rightarrow> error + sop_step" where
  "sop_index sop n = (case sop n of None \<Rightarrow> Inl KeyError | Some st \<Rightarrow> Inr st)"

section \<open>The external collaborators\<close>

text \<open>
  The chat models and the console are outside the program (\<open>LLM_coach\<close>,
  \<open>LLM_GRADER\<close> and \<open>LLM_REFEREE\<close>, lines 38--40, and \<open>input()\<close>); what they
  return is a stream of answers consumed in order. A grader answer carries its raw text
  (used as guidance in interaction mode) and what \<open>JsonOutputParser\<close> makes of it
  (\<open>None\<close> when it is not JSON, otherwise any JSON value); a referee answer carries
  the parse only.
\<close>

datatype answer =
    Coach_says string
  | User_types string
  | Grader_says string "grader_json json option"
  | Referee_says "referee_json json option"

fun pop_coach :: "answer list \<Rightarrow> error + (string \<times> answer list)" where
  "pop_coach (Coach_says r # as) = Inr (r, as)"
| "pop_coach _ = Inl LLM_failure"

fun pop_user :: "answer list \<Rightarrow> error + (string \<times> answer list)" where
  "pop_user (User_types t # as) = Inr (t, as)"
| "pop_user _ = Inl EOFError"

fun pop_grader :: "answer list \<Rightarrow> error + ((string \<times> grader_json json option) \<times> answer list)" where
  "pop_grader (Grader_says t j # as) = Inr ((t, j), as)"
| "pop_grader _ = Inl LLM_failure"

fun pop_referee :: "answer list \<Rightarrow> error + (referee_json json option \<times> answer list)" where
  "pop_referee (Referee_says j # as) = Inr (j, as)"
| "pop_referee _ = Inl LLM_failure"

section \<open>Lemmas\<close>

lemma get_sop_step_description_Inl [simp]:
  "get_sop_step_description sop n = Inl e \<longleftrightarrow>
     e = AttributeError \<and> (\<exists>st. sop n = Some st \<and> rubric st = Key_null)"
  by (auto simp: get_sop_step_description_def split: option.splits jfield.splits)

lemma get_sop_step_description_missing [simp]:
  "sop n = None \<Longrightarrow> get_sop_step_description sop n = Inr ''No description''"
  by (simp add: get_sop_step_description_def)

lemma step_ready_Inr:
  assumes "step_ready sop n"
  obtains st d where "sop n = Some st" "rubric st \<noteq> Key_null"
    "get_sop_step_description sop n = Inr d"
  using assms by (cases "get_sop_step_description sop n")
    (auto simp: step_ready_def split: option.splits)

lemma sop_index_Inr [simp]: "sop_index sop n = Inr st \<longleftrightarrow> sop n = Some st"
  by (auto simp: sop_index_def split: option.splits)

lemma sop_index_Inl [simp]: "sop_index sop n = Inl e \<longleftrightarrow> sop n = None \<and> e = KeyError"
  by (auto simp: sop_index_def split: option.splits)

lemma pop_user_Inr: "pop_user as = Inr (t, as') \<Longrightarrow> as = User_types t # as'"
  by (cases as rule: pop_user.cases) auto

lemma pop_coach_Inr: "pop_coach as = Inr (r, as') \<Longrightarrow> as = Coach_says r # as'"
  by (cases as rule: pop_coach.cases) auto

lemma pop_grader_Inr: "pop_grader as = Inr (x, as') \<Longrightarrow> as = Grader_says (fst x) (snd x) # as'"
  by (cases as rule: pop_grader.cases) auto

lemma pop_referee_Inr: "pop_referee as = Inr (j, as') \<Longrightarrow> as = Referee_says j # as'"
  by (cases as rule: pop_referee.cases) auto

lemmas pop_Inr = pop_user_Inr pop_coach_Inr pop_grader_Inr pop_referee_Inr

lemma pop_coach_Inl: "pop_coach as = Inl e \<Longrightarrow> e = LLM_failure"
  by (cases as rule: pop_coach.cases) auto

lemma pop_user_Inl: "pop_user as = Inl e \<Longrightarrow> e = EOFError"
  by (cases as rule: pop_user.cases) auto

lemma pop_grader_Inl: "pop_grader as = Inl e \<Longrightarrow> e = LLM_failure"
  by (cases as rule: pop_grader.cases) auto

lemma pop_referee_Inl: "pop_referee as = Inl e \<Longrightarrow> e = LLM_failure"
  by (cases as rule: pop_referee.cases) auto

lemmas pop_Inl = pop_coach_Inl pop_user_Inl pop_grader_Inl pop_referee_Inl

end
