(* ===== verification/Nodes.thy ===== *)
theory Nodes
  imports Session
begin

text \<open>
  The four nodes of \<open>src/langchain_referee.py\<close> that talk to the outside world:
  \<open>coach_node\<close> (lines 163--228), \<open>grader_node\<close> (233--290),
  \<open>referee_node\<close> (293--338) and \<open>user_node\<close> (340--353). Each takes the state
  and the answer stream and returns the state after LangGraph merged the node's update
  (a node that returns \<open>{}\<close> leaves the state as it is), with the rest of the stream,
  or the exception the node raises. Every guard and early return of the source is a
  branch here, in the source's order.
\<close>

section \<open>Definitions\<close>

definition role_name :: "role \<Rightarrow> string" where
  "role_name r = (case r of Coach_role \<Rightarrow> ''coach'' | User_role \<Rightarrow> ''user'')"

text \<open>
  One line of the coach's dialogue text, \<open>f"{x['role'].capitalize()}: {x['content']}"\<close>
  (line 196): a grader dictionary has no \<open>content\<close> key, \<open>None\<close> cannot be
  subscripted.
\<close>

fun render_entry :: "entry \<Rightarrow> error + string" where
  "render_entry (Turn m) = Inr (py_capitalize (role_name (msg_role m)) @ '': '' @ content m)"
| "render_entry (Grader_note g) = Inl KeyError"
| "render_entry Null_entry = Inl TypeError"

text \<open>\<open>"\n".join([...])\<close>: the comprehension raises at the first bad entry.\<close>

fun render_dialogue :: "entry list \<Rightarrow> error + string" where
  "render_dialogue [] = Inr []"
| "render_dialogue [e] = render_entry e"
| "render_dialogue (e # es) =
     (case render_entry e of
        Inl err \<Rightarrow> Inl err
      | Inr l \<Rightarrow> (case render_dialogue es of Inl err \<Rightarrow> Inl err | Inr t \<Rightarrow> Inr (l @ ''\<newline>'' @ t)))"

text \<open>
  \<open>coach_node\<close>: skipped unless \<open>next_node\<close> is absent or \<open>"coach"\<close>; builds
  its prompt from the dialogue (which may raise), asks the coach model, strips the reply
  and records it as the new \<open>input_message\<close>, in both transcripts, and routes to the
  grader.
\<close>

definition coach_node :: "state \<Rightarrow> answer list \<Rightarrow> error + (state \<times> answer list)" where
  "coach_node s as =
     (if next_node s \<noteq> None \<and> next_node s \<noteq> Some Coach then Inr (s, as)
      else
        (case render_dialogue (dialogue_history s) of
           Inl e \<Rightarrow> Inl e
         | Inr _ \<Rightarrow>
             (case pop_coach as of
                Inl e \<Rightarrow> Inl e
              | Inr (raw, as') \<Rightarrow>
                  (let r = py_strip raw; m = Msg Coach_role r in
                   Inr (s\<lparr>coach_message := Some r, input_message := Some m,
                          last_grader := None, last_referee := None,
                          history := history s @ [Turn m],
                          dialogue_history := dialogue_history s @ [Turn m],
                          next_node := Some Grader\<rparr>, as')))))"

text \<open>The dictionary \<open>grader_node\<close> stores for an empty message (line 247).\<close>

definition no_message_verdict :: "int \<Rightarrow> grader_json" where
  "no_message_verdict n =
     \<lparr>g_message = ''No message to grade.'', g_current_step = n, step_passed = False\<rparr>"

text \<open>
  \<open>grader_node\<close>. A message that starts with \<open>"Grader:"\<close> is a direct question:
  it is answered in interaction mode whatever \<open>next_node\<close> says, with
  \<open>step_passed\<close> forced to false, logged in \<open>history\<close>, and control goes back to
  the user. Otherwise the node runs only when \<open>next_node\<close> is \<open>"grader"\<close>
  (when skipping it returns \<open>{"next_node": state["next_node"]}\<close>, which raises
  \<open>KeyError\<close> while the key has never been set);
  an empty message gets the no-message verdict (and \<open>next_node\<close> is left alone);
  any other message is graded: the prompt reads the step's description (raising on a
  \<open>null\<close> rubric) and then \<open>SOP_STEPS[step]\<close>, the reply is parsed (raising on
  a reply that is not JSON) and whatever JSON value it is becomes \<open>last_grader\<close>,
  and the referee comes next.
\<close>

definition grader_node :: "catalog \<Rightarrow> state \<Rightarrow> answer list \<Rightarrow> error + (state \<times> answer list)" where
  "grader_node sop s as =
     (case input_message s of
        None \<Rightarrow> Inl AttributeError
      | Some m \<Rightarrow>
          (let c = content m; direct = startswith c ''Grader:'' in
           if \<not> direct \<and> next_node s \<noteq> Some Grader then
             (case next_node s of None \<Rightarrow> Inl KeyError | Some _ \<Rightarrow> Inr (s, as))
           else if c = [] then
             Inr (s\<lparr>last_grader := Some (Object (no_message_verdict (current_step s)))\<rparr>, as)
           else if direct then
             (case sop_index sop (current_step s) of
                Inl e \<Rightarrow> Inl e
              | Inr _ \<Rightarrow>
                  (case pop_grader as of
                     Inl e \<Rightarrow> Inl e
                   | Inr ((t, _), as') \<Rightarrow>
                       (let lg = \<lparr>g_message = t, g_current_step = current_step s,
                                  step_passed = False\<rparr> in
                        Inr (s\<lparr>last_grader := Some (Object lg), next_node := Some User,
                               history := history s @ [Grader_note lg]\<rparr>, as'))))
           else
             (case get_sop_step_description sop (current_step s) of
                Inl e \<Rightarrow> Inl e
              | Inr _ \<Rightarrow>
                  (case sop_index sop (current_step s) of
                     Inl e \<Rightarrow> Inl e
                   | Inr _ \<Rightarrow>
                       (case pop_grader as of
                          Inl e \<Rightarrow> Inl e
                        | Inr ((_, None), as') \<Rightarrow> Inl OutputParserException
                        | Inr ((_, Some g), as') \<Rightarrow>
                            Inr (s\<lparr>last_grader := Some g, next_node := Some Referee\<rparr>, as'))))))"

text \<open>The dictionary \<open>referee_node\<close> stores on missing inputs (line 308).\<close>

definition missing_inputs_referee :: referee_json where
  "missing_inputs_referee =
     \<lparr>referee_grade = ''fail'', r_message = None, r_feedback = Some ''Missing inputs.'',
      must_regenerate = True\<rparr>"

text \<open>
  \<open>referee_node\<close>: when \<open>next_node\<close> names another node it clears
  \<open>last_referee\<close>; otherwise, when the message is empty or the stored verdict is
  falsy (\<open>None\<close>, \<open>{}\<close>, \<open>null\<close>, \<open>false\<close>, \<open>0\<close>, \<open>""\<close>,
  \<open>[]\<close>), it stores its missing-inputs audit; otherwise it reads the step's
  description and \<open>SOP_STEPS[step]\<close> for the prompt, audits the verdict and stores
  whatever JSON value the reply parses to (raising on a reply that is not JSON).
\<close>

definition referee_node :: "catalog \<Rightarrow> state \<Rightarrow> answer list \<Rightarrow> error + (state \<times> answer list)" where
  "referee_node sop s as =
     (if next_node s \<noteq> None \<and> next_node s \<noteq> Some Referee then
        Inr (s\<lparr>last_referee := None\<rparr>, as)
      else
        (case input_message s of
           None \<Rightarrow> Inl AttributeError
         | Some m \<Rightarrow>
             (if content m = [] \<or> \<not> truthy (last_grader s) then
                Inr (s\<lparr>last_referee := Some (Object missing_inputs_referee)\<rparr>, as)
              else
                (case get_sop_step_description sop (current_step s) of
                   Inl e \<Rightarrow> Inl e
                 | Inr _ \<Rightarrow>
                     (case sop_index sop (current_step s) of
                        Inl e \<Rightarrow> Inl e
                      | Inr _ \<Rightarrow>
                          (case pop_referee as of
                             Inl e \<Rightarrow> Inl e
                           | Inr (None, as') \<Rightarrow> Inl OutputParserException
                           | Inr (Some r, as') \<Rightarrow> Inr (s\<lparr>last_referee := Some r\<rparr>, as')))))))"

text \<open>
  \<open>user_node\<close>: prints the current step's description (raising on a \<open>null\<close>
  rubric), reads a reply from the console (no guard: it runs whenever the graph reaches
  it), logs it, and routes to the coach when the lower-cased reply starts with
  \<open>"coach:"\<close>, to the grader otherwise.
\<close>

definition user_route :: "string \<Rightarrow> node" where
  "user_route t = (if startswith (py_lower t) ''coach:'' then Coach else Grader)"

definition user_node :: "catalog \<Rightarrow> state \<Rightarrow> answer list \<Rightarrow> error + (state \<times> answer list)" where
  "user_node sop s as =
     (case get_sop_step_description sop (current_step s) of
        Inl e \<Rightarrow> Inl e
      | Inr _ \<Rightarrow>
          (case pop_user as of
             Inl e \<Rightarrow> Inl e
           | Inr (t, as') \<Rightarrow>
               (let reply = Msg User_role t in
                Inr (s\<lparr>input_message := Some reply, history := history s @ [Turn reply],
                       next_node := Some (user_route t)\<rparr>, as'))))"

text \<open>
  What every node but the orchestrator keeps: the step, the retry count and the
  completion flag unchanged, and both transcripts extended only at their end.
\<close>

definition keeps_session :: "state \<Rightarrow> state \<Rightarrow> bool" where
  "keeps_session s s' \<longleftrightarrow>
     current_step s' = current_step s \<and> grader_retries s' = grader_retries s \<and>
     done_flag s' = done_flag s \<and>
     prefix (history s) (history s') \<and> prefix (dialogue_history s) (dialogue_history s')"

declare coach_node_def [node_defs] grader_node_def [node_defs]
  referee_node_def [node_defs] user_node_def [node_defs]

section \<open>Lemmas\<close>

lemma keeps_session_refl [simp]: "keeps_session s s"
  by (simp add: keeps_session_def)

lemma coach_node_frame:
  "coach_node s as = Inr (s', as') \<Longrightarrow> keeps_session s s' \<and> suffix as' as"
  by (auto simp: coach_node_def keeps_session_def Let_def suffix_def
           split: if_splits sum.splits prod.splits dest: pop_coach_Inr)

lemma user_node_frame:
  "user_node sop s as = Inr (s', as') \<Longrightarrow> keeps_session s s' \<and> suffix as' as \<and> as' \<noteq> as"
  by (auto simp: user_node_def keeps_session_def Let_def suffix_def
           split: sum.splits prod.splits dest: pop_user_Inr)

lemma grader_node_frame:
  "grader_node sop s as = Inr (s', as') \<Longrightarrow> keeps_session s s' \<and> suffix as' as"
  by (auto simp: grader_node_def keeps_session_def Let_def suffix_def
           split: if_splits sum.splits prod.splits option.splits dest: pop_grader_Inr)

lemma referee_node_frame:
  "referee_node sop s as = Inr (s', as') \<Longrightarrow> keeps_session s s' \<and> suffix as' as"
  by (auto simp: referee_node_def keeps_session_def Let_def suffix_def
           split: if_splits sum.splits prod.splits option.splits dest: pop_referee_Inr)

declare coach_node_frame [node_frames] user_node_frame [node_frames]
  grader_node_frame [node_frames] referee_node_frame [node_frames]

section \<open>Properties\<close>

text \<open>
  C18. A grader reply that is not JSON ends the session: grading a non-empty attempt
  whose step is in the catalog raises \<open>OutputParserException\<close>; no
  \<open>step_passed = false\<close> verdict is substituted.
\<close>

theorem grader_parse_failure_raises:
  assumes "input_message s = Some m" "content m \<noteq> []" "\<not> startswith (content m) ''Grader:''"
    and "next_node s = Some Grader" "step_ready sop (current_step s)"
  shows "grader_node sop s (Grader_says t None # as) = Inl OutputParserException"
proof -
  from assms(5) obtain st d where "sop (current_step s) = Some st"
    "get_sop_step_description sop (current_step s) = Inr d" by (rule step_ready_Inr)
  with assms(1-4) show ?thesis by (simp add: grader_node_def sop_index_def Let_def)
qed

theorem grader_parse_failure_raises_witness:
  "grader_node (Map.empty(1 \<mapsto> \<lparr>step_name = ''ack'', step_number = 1, rubric = Key_missing\<rparr>))
     (init_state\<lparr>input_message := Some (Msg User_role ''sorry''), next_node := Some Grader\<rparr>)
     [Grader_says ''I think you passed'' None] = Inl OutputParserException"
  using grader_parse_failure_raises
    [where s = "init_state\<lparr>input_message := Some (Msg User_role ''sorry''), next_node := Some Grader\<rparr>"
       and m = "Msg User_role ''sorry''"
       and sop = "Map.empty(1 \<mapsto> \<lparr>step_name = ''ack'', step_number = 1, rubric = Key_missing\<rparr>)"
       and t = "''I think you passed''" and as = "[]"]
  by (simp add: init_state_def step_ready_def)

text \<open>
  C19. A referee reply that is not JSON ends the session: auditing a truthy verdict on
  a non-empty attempt raises \<open>OutputParserException\<close>; it is not counted as a
  disagreement.
\<close>

theorem referee_parse_failure_raises:
  assumes "next_node s = Some Referee" "input_message s = Some m" "content m \<noteq> []"
    and "truthy (last_grader s)" "step_ready sop (current_step s)"
  shows "referee_node sop s (Referee_says None # as) = Inl OutputParserException"
proof -
  from assms(5) obtain st d where "sop (current_step s) = Some st"
    "get_sop_step_description sop (current_step s) = Inr d" by (rule step_ready_Inr)
  with assms(1-4) show ?thesis by (simp add: referee_node_def sop_index_def)
qed

theorem referee_parse_failure_raises_witness:
  "referee_node (Map.empty(1 \<mapsto> \<lparr>step_name = ''ack'', step_number = 1, rubric = Key_missing\<rparr>))
     (init_state\<lparr>input_message := Some (Msg User_role ''sorry''), next_node := Some Referee,
                 last_grader := Some (Object \<lparr>g_message = ''ok'', g_current_step = 1, step_passed = True\<rparr>)\<rparr>)
     [Referee_says None] = Inl OutputParserException"
  using referee_parse_failure_raises
    [where s = "init_state\<lparr>input_message := Some (Msg User_role ''sorry''), next_node := Some Referee,
                 last_grader := Some (Object \<lparr>g_message = ''ok'', g_current_step = 1, step_passed = True\<rparr>)\<rparr>"
       and m = "Msg User_role ''sorry''"
       and sop = "Map.empty(1 \<mapsto> \<lparr>step_name = ''ack'', step_number = 1, rubric = Key_missing\<rparr>)"
       and as = "[]"]
  by (simp add: init_state_def step_ready_def)

text \<open>
  C20. A step missing from the catalog is not replaced by a placeholder: the printed
  description falls back to \<open>"No description"\<close>, but grading (or answering a direct
  question) on that step raises \<open>KeyError\<close> before the grader is asked.
\<close>

theorem missing_step_raises_KeyError:
  assumes "input_message s = Some m" "content m \<noteq> []"
    and "startswith (content m) ''Grader:'' \<or> next_node s = Some Grader"
    and "sop (current_step s) = None"
  shows "grader_node sop s as = Inl KeyError \<and>
         get_sop_step_description sop (current_step s) = Inr ''No description''"
  using assms by (auto simp: grader_node_def sop_index_def Let_def)

theorem missing_step_raises_KeyError_witness:
  "grader_node Map.empty (init_state\<lparr>input_message := Some (Msg User_role ''sorry''),
                                     next_node := Some Grader\<rparr>) [] = Inl KeyError"
  using missing_step_raises_KeyError
    [where s = "init_state\<lparr>input_message := Some (Msg User_role ''sorry''), next_node := Some Grader\<rparr>"
       and m = "Msg User_role ''sorry''" and sop = Map.empty and as = "[]"]
  by (simp add: init_state_def)

text \<open>
  C21. The skip guards of the dispatcher: the grader leaves the state untouched unless
  \<open>next_node\<close> names it or the message is a direct question, and the referee, when
  \<open>next_node\<close> names another node, only clears \<open>last_referee\<close>; neither consumes
  an answer.
\<close>

theorem skip_guards:
  assumes "input_message s = Some m" "\<not> startswith (content m) ''Grader:''"
    and "next_node s = Some n" "n \<noteq> Grader" "n \<noteq> Referee"
  shows "grader_node sop s as = Inr (s, as) \<and>
         referee_node sop s as = Inr (s\<lparr>last_referee := None\<rparr>, as)"
  using assms by (simp add: grader_node_def referee_node_def Let_def)

theorem skip_guards_witness:
  "grader_node Map.empty (init_state\<lparr>input_message := Some (Msg User_role ''coach: help''),
                                     next_node := Some Coach\<rparr>) [] =
     Inr (init_state\<lparr>input_message := Some (Msg User_role ''coach: help''), next_node := Some Coach\<rparr>, [])"
  using skip_guards
    [where s = "init_state\<lparr>input_message := Some (Msg User_role ''coach: help''), next_node := Some Coach\<rparr>"
       and m = "Msg User_role ''coach: help''" and n = Coach and sop = Map.empty and as = "[]"]
  by (simp add: init_state_def)

end
