(* ===== verification/Orchestrator.thy ===== *)
theory Orchestrator
  imports Session
begin

text \<open>
  \<open>orchestrator_node\<close> (\<open>src/langchain_referee.py\<close>, lines 355--414): the
  consensus resolver that combines the grader's verdict and the referee's audit into
  advance, confirmed fail, re-grade or the fatal \<open>RuntimeError\<close>. Beside it, the
  abstract decision table of the design (a verdict, an audit and a session of
  step, retry count and completion flag) and the refinement lemma that the node
  implements it. The session invariant (step within \<open>1..6\<close>, retries below the
  bound, completion only at the last step) is stated here, since this node is the only
  one that writes those fields.
\<close>

section \<open>The node\<close>

text \<open>
  The \<open>updates.get("done")\<close> test at line 358 reads the fresh, empty update
  dictionary and is never true; it has no branch here. The node acts only when the
  stored audit is truthy (\<open>if referee:\<close>, line 381); it then subscripts the verdict
  (\<open>grader["step_passed"]\<close>, line 383) and the audit
  (\<open>referee["referee_grade"]\<close>, line 384), in that order, either of which raises
  when it is not an object with the key. The referee agrees when its
  \<open>referee_grade\<close> is the string \<open>"pass"\<close>; \<open>must_regenerate\<close> is not read.
\<close>

definition referee_agrees :: "referee_json \<Rightarrow> bool" where
  "referee_agrees r = (referee_grade r = ''pass'')"

definition orchestrator_node :: "state \<Rightarrow> error + state" where
  "orchestrator_node s =
     (if \<not> truthy (last_referee s) then Inr s
      else
        (case subscript (last_grader s) of
           Inl e \<Rightarrow> Inl e
         | Inr g \<Rightarrow>
          (case subscript (last_referee s) of
             Inl e \<Rightarrow> Inl e
           | Inr r \<Rightarrow>
               (if referee_agrees r \<and> step_passed g then
                  Inr (s\<lparr>dialogue_history := dialogue_history s @ [entry_of (input_message s)],
                         grader_retries := 0,
                         current_step := min (current_step s + 1) FINAL_STEP,
                         done_flag := FINAL_STEP \<le> current_step s,
                         input_message := None, last_grader := None, last_referee := None,
                         next_node := Some (if FINAL_STEP \<le> current_step s then END else Coach)\<rparr>)
                else if referee_agrees r \<and> \<not> step_passed g then
                  Inr (s\<lparr>grader_retries := 0, input_message := None, next_node := Some User,
                         history := history s @ [entry_of (input_message s)]\<rparr>)
                else
                  (let retries = grader_retries s + 1 in
                   if retries = MAX_GRADER_RETRIES then Inl RuntimeError
                   else Inr (s\<lparr>grader_retries := retries, next_node := Some Grader\<rparr>))))))"

declare orchestrator_node_def [node_defs]

section \<open>The decision table of the design\<close>

text \<open>
  The abstract session: the step, the consecutive-disagreement count, completion, and
  the actor that runs next. \<open>resolve\<close> is the table of the design: agreement on a
  pass advances (clamped at the last step, completing when the last step was
  passed), agreement on a fail keeps the step, any disagreement counts one retry and
  re-grades, and the retry that reaches the bound is fatal (\<open>None\<close>).
\<close>

record consensus =
  a_step :: int
  a_retries :: int
  a_done :: bool
  a_next :: "node option"

definition resolve :: "consensus \<Rightarrow> bool \<Rightarrow> bool \<Rightarrow> consensus option" where
  "resolve c passed agrees =
     (if agrees then
        (if passed then
           Some \<lparr>a_step = min (a_step c + 1) FINAL_STEP, a_retries = 0,
                 a_done = (FINAL_STEP \<le> a_step c),
                 a_next = Some (if FINAL_STEP \<le> a_step c then END else Coach)\<rparr>
         else Some (c\<lparr>a_retries := 0, a_next := Some User\<rparr>))
      else if a_retries c + 1 = MAX_GRADER_RETRIES then None
      else Some (c\<lparr>a_retries := a_retries c + 1, a_next := Some Grader\<rparr>))"

definition abs_state :: "state \<Rightarrow> consensus" where
  "abs_state s =
     \<lparr>a_step = current_step s, a_retries = grader_retries s, a_done = done_flag s,
      a_next = next_node s\<rparr>"

section \<open>The session invariant\<close>

definition wf_state :: "state \<Rightarrow> bool" where
  "wf_state s \<longleftrightarrow>
     1 \<le> current_step s \<and> current_step s \<le> FINAL_STEP \<and>
     0 \<le> grader_retries s \<and> grader_retries s < MAX_GRADER_RETRIES \<and>
     (done_flag s \<longrightarrow> current_step s = FINAL_STEP)"

section \<open>Lemmas\<close>

lemma wf_init_state: "wf_state init_state"
  by (simp add: wf_state_def init_state_def)

lemma orchestrator_no_referee [simp]: "\<not> truthy (last_referee s) \<Longrightarrow> orchestrator_node s = Inr s"
  by (simp add: orchestrator_node_def)

lemma orchestrator_cases:
  assumes "orchestrator_node s = Inr s'"
  obtains (idle) "\<not> truthy (last_referee s)" "s' = s"
  | (advance) r g where "last_referee s = Some (Object r)" "last_grader s = Some (Object g)"
      "referee_agrees r" "step_passed g"
      "s' = s\<lparr>dialogue_history := dialogue_history s @ [entry_of (input_message s)],
              grader_retries := 0, current_step := min (current_step s + 1) FINAL_STEP,
              done_flag := FINAL_STEP \<le> current_step s,
              input_message := None, last_grader := None, last_referee := None,
              next_node := Some (if FINAL_STEP \<le> current_step s then END else Coach)\<rparr>"
  | (confirmed) r g where "last_referee s = Some (Object r)" "last_grader s = Some (Object g)"
      "referee_agrees r" "\<not> step_passed g"
      "s' = s\<lparr>grader_retries := 0, input_message := None, next_node := Some User,
              history := history s @ [entry_of (input_message s)]\<rparr>"
  | (disputed) r g where "last_referee s = Some (Object r)" "last_grader s = Some (Object g)"
      "\<not> referee_agrees r" "grader_retries s + 1 \<noteq> MAX_GRADER_RETRIES"
      "s' = s\<lparr>grader_retries := grader_retries s + 1, next_node := Some Grader\<rparr>"
  using assms
  by (cases "last_referee s" rule: subscript.cases; cases "last_grader s" rule: subscript.cases)
     (auto simp: orchestrator_node_def Let_def split: if_splits)

lemma orchestrator_frame_transcripts:
  "orchestrator_node s = Inr s' \<Longrightarrow>
     prefix (history s) (history s') \<and> prefix (dialogue_history s) (dialogue_history s')"
  by (erule orchestrator_cases) auto

lemma orchestrator_step_mono:
  "current_step s \<le> FINAL_STEP \<Longrightarrow> orchestrator_node s = Inr s' \<Longrightarrow>
     current_step s \<le> current_step s'"
  by (erule orchestrator_cases) auto

lemma orchestrator_wf:
  "wf_state s \<Longrightarrow> orchestrator_node s = Inr s' \<Longrightarrow> wf_state s'"
  by (erule orchestrator_cases) (auto simp: wf_state_def)

abbreviation forget_audit :: "error + state \<Rightarrow> error + state" where
  "forget_audit \<equiv> map_sum id (\<lambda>t. t\<lparr>last_referee := None\<rparr>)"

abbreviation forget_verdict :: "error + state \<Rightarrow> error + state" where
  "forget_verdict \<equiv> map_sum id (\<lambda>t. t\<lparr>last_grader := None\<rparr>)"

section \<open>Properties\<close>

text \<open>
  C1. Agreement on a pass advances: the step goes up by one (held at the last step),
  the retry count is reset, the verdict, the audit and the reply are cleared, the reply
  joins the dialogue, and the session completes exactly when the step just passed was
  the last one; otherwise the coach speaks next.
\<close>

theorem orchestrator_advance:
  assumes "last_grader s = Some (Object g)" "step_passed g"
    and "last_referee s = Some (Object r)" "referee_agrees r"
  shows "\<exists>s'. orchestrator_node s = Inr s' \<and>
           current_step s' = min (current_step s + 1) FINAL_STEP \<and>
           grader_retries s' = 0 \<and>
           done_flag s' = (FINAL_STEP \<le> current_step s) \<and>
           next_node s' = Some (if FINAL_STEP \<le> current_step s then END else Coach) \<and>
           last_grader s' = None \<and> last_referee s' = None \<and> input_message s' = None \<and>
           dialogue_history s' = dialogue_history s @ [entry_of (input_message s)] \<and>
           history s' = history s"
  using assms by (simp add: orchestrator_node_def)

theorem orchestrator_advance_witness:
  "\<exists>s'. orchestrator_node
          (init_state\<lparr>last_grader := Some (Object \<lparr>g_message = ''ok'', g_current_step = 1, step_passed = True\<rparr>),
                      last_referee := Some (Object \<lparr>referee_grade = ''pass'', r_message = Some ''fine'',
                                             r_feedback = None, must_regenerate = False\<rparr>)\<rparr>) = Inr s' \<and>
        current_step s' = 2 \<and> grader_retries s' = 0 \<and> \<not> done_flag s' \<and> next_node s' = Some Coach"
proof -
  let ?g = "\<lparr>g_message = ''ok'', g_current_step = 1, step_passed = True\<rparr>"
  let ?r = "\<lparr>referee_grade = ''pass'', r_message = Some ''fine'', r_feedback = None,
             must_regenerate = False\<rparr>"
  have "referee_agrees ?r" by (simp add: referee_agrees_def)
  from orchestrator_advance [of "init_state\<lparr>last_grader := Some (Object ?g), last_referee := Some (Object ?r)\<rparr>" ?g ?r, OF _ _ _ this]
  show ?thesis by (auto simp: init_state_def)
qed

text \<open>
  C2. Agreement on a fail keeps the step and the completion flag, resets the retry
  count, logs the reply in \<open>history\<close> and hands the turn back to the user.
\<close>

theorem orchestrator_confirmed_fail:
  assumes "last_grader s = Some (Object g)" "\<not> step_passed g"
    and "last_referee s = Some (Object r)" "referee_agrees r"
  shows "\<exists>s'. orchestrator_node s = Inr s' \<and>
           current_step s' = current_step s \<and> grader_retries s' = 0 \<and>
           done_flag s' = done_flag s \<and> next_node s' = Some User \<and>
           input_message s' = None \<and>
           history s' = history s @ [entry_of (input_message s)] \<and>
           dialogue_history s' = dialogue_history s"
  using assms by (simp add: orchestrator_node_def)

theorem orchestrator_confirmed_fail_witness:
  "\<exists>s'. orchestrator_node
          (init_state\<lparr>current_step := 2, grader_retries := 1,
                      last_grader := Some (Object \<lparr>g_message = ''no'', g_current_step = 2, step_passed = False\<rparr>),
                      last_referee := Some (Object \<lparr>referee_grade = ''pass'', r_message = None,
                                             r_feedback = None, must_regenerate = False\<rparr>)\<rparr>) = Inr s' \<and>
        current_step s' = 2 \<and> grader_retries s' = 0 \<and> next_node s' = Some User"
proof -
  let ?g = "\<lparr>g_message = ''no'', g_current_step = 2, step_passed = False\<rparr>"
  let ?r = "\<lparr>referee_grade = ''pass'', r_message = None, r_feedback = None,
             must_regenerate = False\<rparr>"
  have "referee_agrees ?r" by (simp add: referee_agrees_def)
  from orchestrator_confirmed_fail
    [of "init_state\<lparr>current_step := 2, grader_retries := 1, last_grader := Some (Object ?g),
                    last_referee := Some (Object ?r)\<rparr>" ?g ?r, OF _ _ _ this]
  show ?thesis by (auto simp: init_state_def)
qed

text \<open>
  C3. A disagreement below the bound counts exactly one retry, keeps the step, the
  completion flag and both transcripts, and sends the turn back to the grader.
\<close>

theorem orchestrator_disputed:
  assumes "last_grader s = Some (Object g)" "last_referee s = Some (Object r)" "\<not> referee_agrees r"
    and "grader_retries s + 1 \<noteq> MAX_GRADER_RETRIES"
  shows "\<exists>s'. orchestrator_node s = Inr s' \<and>
           grader_retries s' = grader_retries s + 1 \<and> current_step s' = current_step s \<and>
           done_flag s' = done_flag s \<and> next_node s' = Some Grader \<and>
           history s' = history s \<and> dialogue_history s' = dialogue_history s"
  using assms by (simp add: orchestrator_node_def Let_def)

theorem orchestrator_disputed_witness:
  "\<exists>s'. orchestrator_node
          (init_state\<lparr>last_grader := Some (Object \<lparr>g_message = ''ok'', g_current_step = 1, step_passed = True\<rparr>),
                      last_referee := Some (Object \<lparr>referee_grade = ''fail'', r_message = Some ''wrong'',
                                             r_feedback = None, must_regenerate = True\<rparr>)\<rparr>) = Inr s' \<and>
        grader_retries s' = 1 \<and> current_step s' = 1 \<and> next_node s' = Some Grader"
proof -
  let ?g = "\<lparr>g_message = ''ok'', g_current_step = 1, step_passed = True\<rparr>"
  let ?r = "\<lparr>referee_grade = ''fail'', r_message = Some ''wrong'', r_feedback = None,
             must_regenerate = True\<rparr>"
  have "\<not> referee_agrees ?r" by (simp add: referee_agrees_def)
  from orchestrator_disputed
    [of "init_state\<lparr>last_grader := Some (Object ?g), last_referee := Some (Object ?r)\<rparr>" ?g ?r, OF _ _ this]
  show ?thesis by (auto simp: init_state_def)
qed

text \<open>
  C4. Refinement: wherever both a verdict and an audit are present, the node computes
  what the decision table of the design prescribes for the abstract session, and it
  raises \<open>RuntimeError\<close> exactly where the table is fatal.
\<close>

theorem orchestrator_refines_resolve:
  assumes "last_grader s = Some (Object g)" "last_referee s = Some (Object r)"
  shows "map_sum id abs_state (orchestrator_node s) =
           (case resolve (abs_state s) (step_passed g) (referee_agrees r) of
              None \<Rightarrow> Inl RuntimeError
            | Some c \<Rightarrow> Inr c)"
  using assms
  by (auto simp: orchestrator_node_def resolve_def abs_state_def Let_def)

theorem orchestrator_refines_resolve_witness:
  "map_sum id abs_state
     (orchestrator_node
        (init_state\<lparr>grader_retries := 1,
                    last_grader := Some (Object \<lparr>g_message = ''ok'', g_current_step = 1, step_passed = False\<rparr>),
                    last_referee := Some (Object \<lparr>referee_grade = ''fail'', r_message = None,
                                           r_feedback = None, must_regenerate = True\<rparr>)\<rparr>)) =
   Inl RuntimeError"
proof -
  let ?g = "\<lparr>g_message = ''ok'', g_current_step = 1, step_passed = False\<rparr>"
  let ?r = "\<lparr>referee_grade = ''fail'', r_message = None, r_feedback = None,
             must_regenerate = True\<rparr>"
  from orchestrator_refines_resolve
    [of "init_state\<lparr>grader_retries := 1, last_grader := Some (Object ?g), last_referee := Some (Object ?r)\<rparr>" ?g ?r]
  show ?thesis
    by (simp add: init_state_def resolve_def abs_state_def referee_agrees_def)
qed

text \<open>
  C14. The retry bound: from any well-formed state, a disagreement that does not raise
  leaves the retry count at one, so the next disagreement, on whatever verdict and audit
  come next, raises \<open>RuntimeError\<close>: two consecutive disagreements end the session.
\<close>

theorem orchestrator_second_disagreement_fatal:
  assumes "wf_state s" "last_grader s = Some (Object g)" "last_referee s = Some (Object r)"
    and "\<not> referee_agrees r" "orchestrator_node s = Inr s'" "\<not> referee_agrees r'"
  shows "orchestrator_node (s'\<lparr>last_grader := Some (Object g'), last_referee := Some (Object r')\<rparr>) =
           Inl RuntimeError"
proof -
  from assms(5) have "grader_retries s' = 1"
  proof (cases rule: orchestrator_cases)
    case disputed
    with assms(1) show ?thesis by (simp add: wf_state_def)
  qed (use assms(2-4) in auto)
  with assms(6) show ?thesis by (simp add: orchestrator_node_def)
qed

theorem orchestrator_second_disagreement_fatal_witness:
  "orchestrator_node
     (init_state\<lparr>grader_retries := 1, next_node := Some Grader,
                 last_grader := Some (Object \<lparr>g_message = ''ok'', g_current_step = 1, step_passed = False\<rparr>),
                 last_referee := Some (Object \<lparr>referee_grade = ''fail'', r_message = None,
                                        r_feedback = None, must_regenerate = True\<rparr>)\<rparr>) =
   Inl RuntimeError"
proof -
  let ?g = "\<lparr>g_message = ''ok'', g_current_step = 1, step_passed = True\<rparr>"
  let ?g' = "\<lparr>g_message = ''ok'', g_current_step = 1, step_passed = False\<rparr>"
  let ?r = "\<lparr>referee_grade = ''fail'', r_message = None, r_feedback = None, must_regenerate = True\<rparr>"
  let ?s = "init_state\<lparr>last_grader := Some (Object ?g), last_referee := Some (Object ?r)\<rparr>"
  let ?s' = "init_state\<lparr>last_grader := Some (Object ?g), last_referee := Some (Object ?r),
                        grader_retries := 1, next_node := Some Grader\<rparr>"
  have w: "wf_state ?s" by (simp add: wf_state_def init_state_def)
  have n: "\<not> referee_agrees ?r" by (simp add: referee_agrees_def)
  have o: "orchestrator_node ?s = Inr ?s'"
    by (simp add: orchestrator_node_def init_state_def referee_agrees_def)
  from orchestrator_second_disagreement_fatal [OF w _ _ n o n, of ?g ?g']
  show ?thesis by (simp add: init_state_def)
qed

text \<open>
  C15. The two disagreement rows are handled identically: with a disagreeing audit, the
  outcome does not depend on the verdict at all (up to the stored verdict itself).
\<close>

theorem orchestrator_disputed_symmetric:
  assumes "\<not> referee_agrees r"
  shows "forget_verdict (orchestrator_node (s\<lparr>last_grader := Some (Object g1), last_referee := Some (Object r)\<rparr>)) =
         forget_verdict (orchestrator_node (s\<lparr>last_grader := Some (Object g2), last_referee := Some (Object r)\<rparr>))"
  using assms by (simp add: orchestrator_node_def Let_def)

theorem orchestrator_disputed_symmetric_witness:
  "forget_verdict (orchestrator_node (init_state\<lparr>
       last_grader := Some (Object \<lparr>g_message = ''pass'', g_current_step = 1, step_passed = True\<rparr>),
       last_referee := Some (Object \<lparr>referee_grade = ''fail'', r_message = None, r_feedback = None,
                              must_regenerate = True\<rparr>)\<rparr>)) =
   forget_verdict (orchestrator_node (init_state\<lparr>
       last_grader := Some (Object \<lparr>g_message = ''fail'', g_current_step = 1, step_passed = False\<rparr>),
       last_referee := Some (Object \<lparr>referee_grade = ''fail'', r_message = None, r_feedback = None,
                              must_regenerate = True\<rparr>)\<rparr>))"
  by (rule orchestrator_disputed_symmetric) (simp add: referee_agrees_def)

text \<open>
  C16. The orchestrator reads only \<open>referee_grade\<close> of the audit: two audits with the
  same grade give the same outcome (up to the stored audit), whatever their
  \<open>must_regenerate\<close>, \<open>message\<close> and \<open>feedback\<close>. In particular an audit with
  grade \<open>"pass"\<close> and \<open>must_regenerate\<close> true counts as agreement.
\<close>

theorem orchestrator_reads_only_grade:
  assumes "referee_grade r1 = referee_grade r2"
  shows "forget_audit (orchestrator_node (s\<lparr>last_referee := Some (Object r1)\<rparr>)) =
         forget_audit (orchestrator_node (s\<lparr>last_referee := Some (Object r2)\<rparr>))"
  using assms
  by (cases "last_grader s" rule: subscript.cases)
     (simp_all add: orchestrator_node_def referee_agrees_def Let_def)

theorem orchestrator_reads_only_grade_witness:
  "forget_audit (orchestrator_node (init_state\<lparr>
       last_grader := Some (Object \<lparr>g_message = ''ok'', g_current_step = 1, step_passed = True\<rparr>),
       last_referee := Some (Object \<lparr>referee_grade = ''pass'', r_message = None, r_feedback = None,
                              must_regenerate = True\<rparr>)\<rparr>)) =
   forget_audit (orchestrator_node (init_state\<lparr>
       last_grader := Some (Object \<lparr>g_message = ''ok'', g_current_step = 1, step_passed = True\<rparr>),
       last_referee := Some (Object \<lparr>referee_grade = ''pass'', r_message = Some ''fine'', r_feedback = None,
                              must_regenerate = False\<rparr>)\<rparr>))"
  using orchestrator_reads_only_grade
    [of "\<lparr>referee_grade = ''pass'', r_message = None, r_feedback = None, must_regenerate = True\<rparr>"
        "\<lparr>referee_grade = ''pass'', r_message = Some ''fine'', r_feedback = None, must_regenerate = False\<rparr>"
        "init_state\<lparr>last_grader := Some (Object \<lparr>g_message = ''ok'', g_current_step = 1, step_passed = True\<rparr>)\<rparr>"]
  by simp

text \<open>
  C17. The orchestrator reads only \<open>step_passed\<close> of the verdict: a verdict that names
  another step (a stale verdict) is resolved like a current one. Two verdicts with the
  same \<open>step_passed\<close> give the same outcome, whatever their \<open>current_step\<close>.
\<close>

theorem orchestrator_reads_only_passed:
  assumes "step_passed g1 = step_passed g2"
  shows "forget_verdict (orchestrator_node (s\<lparr>last_grader := Some (Object g1)\<rparr>)) =
         forget_verdict (orchestrator_node (s\<lparr>last_grader := Some (Object g2)\<rparr>))"
  using assms
  by (cases "last_referee s" rule: subscript.cases)
     (simp_all add: orchestrator_node_def Let_def)

theorem orchestrator_reads_only_passed_witness:
  "forget_verdict (orchestrator_node (init_state\<lparr>current_step := 3,
       last_referee := Some (Object \<lparr>referee_grade = ''pass'', r_message = None, r_feedback = None,
                              must_regenerate = False\<rparr>),
       last_grader := Some (Object \<lparr>g_message = ''ok'', g_current_step = 1, step_passed = True\<rparr>)\<rparr>)) =
   forget_verdict (orchestrator_node (init_state\<lparr>current_step := 3,
       last_referee := Some (Object \<lparr>referee_grade = ''pass'', r_message = None, r_feedback = None,
                              must_regenerate = False\<rparr>),
       last_grader := Some (Object \<lparr>g_message = ''ok'', g_current_step = 3, step_passed = True\<rparr>)\<rparr>))"
  using orchestrator_reads_only_passed
    [of "\<lparr>g_message = ''ok'', g_current_step = 1, step_passed = True\<rparr>"
        "\<lparr>g_message = ''ok'', g_current_step = 3, step_passed = True\<rparr>"
        "init_state\<lparr>current_step := 3, last_referee := Some (Object \<lparr>referee_grade = ''pass'', r_message = None,
           r_feedback = None, must_regenerate = False\<rparr>)\<rparr>"]
  by simp

end
