(* ===== verification/Graph.thy ===== *)
theory Graph
  imports Nodes Orchestrator
begin

text \<open>
  How the nodes are composed (\<open>src/langchain_referee.py\<close>, lines 416--443 and
  448--472): the edges of the \<open>StateGraph\<close>, one node run, one
  \<open>simulation.invoke(state)\<close> (which starts at the entry \<open>"coach"\<close> and follows
  the edges until the orchestrator routes to \<open>END\<close> or to a name that has no edge,
  within LangGraph's step budget), and the driver loop of \<open>run_simulation\<close> that
  re-invokes the graph until \<open>done\<close>. The reachable states of the graph are an
  inductive predicate; the session invariant and the safety properties are proved by
  rule induction over it.
\<close>

section \<open>The graph\<close>

text \<open>
  The edges, lines 427--436. The orchestrator's conditional edges name
  \<open>"coach"\<close>, \<open>"user"\<close> and \<open>END\<close>; any other \<open>next_node\<close> (the
  \<open>"grader"\<close> of a re-grade, or a name left by a skipped node) has no edge, and the
  invocation stops there.
\<close>

fun edge :: "node \<Rightarrow> state \<Rightarrow> node option" where
  "edge Coach s = Some User"
| "edge User s = Some Grader"
| "edge Grader s = Some Referee"
| "edge Referee s = Some Orchestrator"
| "edge Orchestrator s =
     (case next_node s of Some Coach \<Rightarrow> Some Coach | Some User \<Rightarrow> Some User | _ \<Rightarrow> None)"
| "edge END s = None"

text \<open>One node run, lines 420--424 (the orchestrator consumes no answer).\<close>

fun run_node :: "catalog \<Rightarrow> node \<Rightarrow> state \<Rightarrow> answer list \<Rightarrow> error + (state \<times> answer list)" where
  "run_node sop Coach s as = coach_node s as"
| "run_node sop User s as = user_node sop s as"
| "run_node sop Grader s as = grader_node sop s as"
| "run_node sop Referee s as = referee_node sop s as"
| "run_node sop Orchestrator s as = map_sum id (\<lambda>s'. (s', as)) (orchestrator_node s)"
| "run_node sop END s as = Inr (s, as)"

text \<open>
  An invocation from a node with a budget of node runs; the budget spent is
  LangGraph's \<open>GraphRecursionError\<close>. \<open>simulation.invoke\<close> passes no
  configuration, so the budget is LangGraph's default \<open>recursion_limit\<close> of 25.
\<close>

fun invoke :: "nat \<Rightarrow> catalog \<Rightarrow> node \<Rightarrow> state \<Rightarrow> answer list \<Rightarrow> error + (state \<times> answer list)" where
  "invoke 0 sop n s as = Inl GraphRecursionError"
| "invoke (Suc k) sop n s as =
     (case run_node sop n s as of
        Inl e \<Rightarrow> Inl e
      | Inr (s', as') \<Rightarrow> (case edge n s' of None \<Rightarrow> Inr (s', as') | Some n' \<Rightarrow> invoke k sop n' s' as'))"

abbreviation RECURSION_LIMIT :: nat where
  "RECURSION_LIMIT \<equiv> 25"

definition simulation_invoke :: "catalog \<Rightarrow> state \<Rightarrow> answer list \<Rightarrow> error + (state \<times> answer list)" where
  "simulation_invoke sop s as = invoke RECURSION_LIMIT sop Coach s as"

text \<open>
  The feedback the driver prints after each invocation, lines 510--525: with a falsy
  audit it prints \<open>last_grader['message']\<close> when the verdict is truthy; otherwise it
  subscripts the audit's \<open>referee_grade\<close>, then the verdict's \<open>message\<close> when
  the referee agreed and the audit's \<open>message\<close> when it did not. Each subscript
  can raise.
\<close>

definition show_feedback :: "state \<Rightarrow> error option" where
  "show_feedback s =
     (if \<not> truthy (last_referee s) then
        (if truthy (last_grader s) then
           (case subscript (last_grader s) of Inl e \<Rightarrow> Some e | Inr _ \<Rightarrow> None)
         else None)
      else
        (case subscript (last_referee s) of
           Inl e \<Rightarrow> Some e
         | Inr r \<Rightarrow>
             (if referee_grade r = ''pass'' then
                (case subscript (last_grader s) of Inl e \<Rightarrow> Some e | Inr _ \<Rightarrow> None)
              else (case r_message r of None \<Rightarrow> Some KeyError | Some _ \<Rightarrow> None))))"

text \<open>
  The driver loop, lines 470--525, with fuel: \<open>None\<close> is a loop that has not ended
  within the fuel.
\<close>

fun drive :: "nat \<Rightarrow> catalog \<Rightarrow> state \<Rightarrow> answer list \<Rightarrow> (error + (state \<times> answer list)) option" where
  "drive 0 sop s as = None"
| "drive (Suc k) sop s as =
     (if done_flag s then Some (Inr (s, as))
      else
        (case simulation_invoke sop s as of
           Inl e \<Rightarrow> Some (Inl e)
         | Inr (s', as') \<Rightarrow>
             (case show_feedback s' of Some e \<Rightarrow> Some (Inl e) | None \<Rightarrow> drive k sop s' as')))"

text \<open>
  \<open>run_simulation(sample)\<close>, lines 448--472: load the steps into the empty catalog
  (which raises on a \<open>null\<close> rubric), then drive from the initial state. Every
  invocation reads at least one reply of the user, so one round per answer (plus one)
  is fuel enough (\<open>run_simulation_total\<close>).
\<close>

definition run_simulation :: "sop_step list \<Rightarrow> answer list \<Rightarrow> (error + (state \<times> answer list)) option" where
  "run_simulation steps as =
     (case load_steps Map.empty steps of
        Inl e \<Rightarrow> Some (Inl e)
      | Inr sop \<Rightarrow> drive (Suc (length as)) sop init_state as)"

text \<open>
  What \<open>run_simulation\<close> prints after the loop, lines 528--547, one string per
  \<open>print\<close> call: the completion banner (the loop only ends on \<open>done\<close>), and the
  history, one block per entry. The role is read by subscript, so a \<open>None\<close> entry
  raises \<open>TypeError\<close>; a grader dictionary has the role \<open>"grader"\<close> and no
  \<open>content\<close>, so its \<open>message\<close> is shown. No entry has a
  \<open>grader_feedback\<close> key (a message has two keys, a verdict the four keys of the
  grader's schema), so the optional feedback line is never printed. The banner's
  check mark is written as its UTF-8 bytes.
\<close>

definition entry_role :: "entry \<Rightarrow> error + string" where
  "entry_role e =
     (case e of Turn m \<Rightarrow> Inr (role_name (msg_role m)) | Grader_note g \<Rightarrow> Inr ''grader''
      | Null_entry \<Rightarrow> Inl TypeError)"

definition entry_text :: "entry \<Rightarrow> string" where
  "entry_text e = (case e of Turn m \<Rightarrow> content m | Grader_note g \<Rightarrow> g_message g | Null_entry \<Rightarrow> [])"

fun history_lines :: "nat \<Rightarrow> entry list \<Rightarrow> error + string list" where
  "history_lines i [] = Inr []"
| "history_lines i (e # es) =
     (case entry_role e of
        Inl err \<Rightarrow> Inl err
      | Inr r \<Rightarrow>
          map_sum id
            (\<lambda>ls. [py_str_nat (i + 1) @ ''):'',
                   ''  Coach ('' @ r @ ''): '' @ [CHR 0x22] @ entry_text e @ [CHR 0x22],
                   replicate 20 (CHR ''-'')] @ ls)
            (history_lines (Suc i) es))"

definition history_report :: "entry list \<Rightarrow> error + string list" where
  "history_report h =
     (if h = [] then
        Inr [''\<newline>=== Simulation History ==='', ''No steps completed successfully.'',
             ''=== End Simulation History ==='']
      else
        map_sum id (\<lambda>ls. ''\<newline>=== Simulation History ==='' # ls @ [''=== End Simulation History ===''])
          (history_lines 0 h))"

definition done_banner :: string where
  "done_banner = ''\<newline>'' @ map char_of [0xE2 :: nat, 0x9C, 0x85] @ ''  Simulation complete! All steps passed.''"

definition final_report :: "state \<Rightarrow> error + string list" where
  "final_report s =
     map_sum id (\<lambda>ls. (if done_flag s then [done_banner] else []) @ ls) (history_report (history s))"

text \<open>
  The whole of \<open>run_simulation\<close>: the loop, then the report on the state it ended
  in; an exception raised in the loop propagates, and the report is not printed.
\<close>

definition simulation_report :: "sop_step list \<Rightarrow> answer list \<Rightarrow> (error + string list) option" where
  "simulation_report steps as =
     (case run_simulation steps as of
        None \<Rightarrow> None
      | Some (Inl e) \<Rightarrow> Some (Inl e)
      | Some (Inr (s, _)) \<Rightarrow> Some (final_report s))"

section \<open>Reachable states\<close>

text \<open>
  A state the graph can be in before running node \<open>n\<close>, for any answers of the
  collaborators: the entry, a step along an edge, or a new invocation from the entry
  after an invocation stopped short of completion.
\<close>

inductive reach :: "catalog \<Rightarrow> node \<Rightarrow> state \<Rightarrow> bool" for sop :: catalog where
  start: "reach sop Coach init_state"
| step: "reach sop n s \<Longrightarrow> run_node sop n s as = Inr (s', as') \<Longrightarrow> edge n s' = Some n' \<Longrightarrow>
           reach sop n' s'"
| restart: "reach sop n s \<Longrightarrow> run_node sop n s as = Inr (s', as') \<Longrightarrow> edge n s' = None \<Longrightarrow>
           \<not> done_flag s' \<Longrightarrow> reach sop Coach s'"

text \<open>
  The dialogue shown to the coach holds only messages, never a grader dictionary or
  \<open>None\<close> (which would make \<open>coach_node\<close> raise).
\<close>

definition turns_only :: "entry list \<Rightarrow> bool" where
  "turns_only es \<longleftrightarrow> list_all (\<lambda>e. case e of Turn _ \<Rightarrow> True | _ \<Rightarrow> False) es"

text \<open>
  The shape of the dialogue the coach reads (\<open>StateDict\<close>, line 158, documents it as
  alternating coach and user turns): \<open>coach_led\<close> holds when it is made of
  messages and every user turn directly follows a coach turn.
\<close>

fun coach_led :: "entry list \<Rightarrow> bool" where
  "coach_led [] = True"
| "coach_led (Turn (Msg Coach_role c) # Turn (Msg User_role u) # es) = coach_led es"
| "coach_led (Turn (Msg Coach_role c) # es) = coach_led es"
| "coach_led _ = False"

definition ends_with_coach :: "entry list \<Rightarrow> bool" where
  "ends_with_coach es \<longleftrightarrow> es \<noteq> [] \<and> (\<exists>c. last es = Turn (Msg Coach_role c))"

text \<open>
  The invariant behind it: past the coach (or when the coach is about to skip itself)
  the dialogue ends with a coach turn, and from the grader on, the reply under
  consideration is the user's.
\<close>

definition dialogue_inv :: "node \<Rightarrow> state \<Rightarrow> bool" where
  "dialogue_inv n s \<longleftrightarrow> coach_led (dialogue_history s) \<and>
     ((n \<noteq> Coach \<or> (next_node s \<noteq> None \<and> next_node s \<noteq> Some Coach)) \<longrightarrow>
        ends_with_coach (dialogue_history s)) \<and>
     (n \<in> {Grader, Referee, Orchestrator} \<longrightarrow>
        (\<exists>u. input_message s = Some (Msg User_role u)))"

text \<open>
  Answers of a trainee who passes every step at the first attempt, with the grader and
  the referee agreeing: each round ends with an empty reply to the next coach turn,
  which ends the invocation (the grader's no-message verdict is not audited).
\<close>

definition good_verdict :: grader_json where
  "good_verdict = \<lparr>g_message = ''good'', g_current_step = 0, step_passed = True\<rparr>"

definition agreeing_audit :: referee_json where
  "agreeing_audit = \<lparr>referee_grade = ''pass'', r_message = Some ''ok'', r_feedback = None,
      must_regenerate = False\<rparr>"

definition pass_round :: "answer list" where
  "pass_round =
     [User_types ''ok'', Grader_says ''{}'' (Some (Object good_verdict)),
      Referee_says (Some (Object agreeing_audit))]"

definition coach_opening :: "state \<Rightarrow> answer list" where
  "coach_opening s = (if next_node s = None \<or> next_node s = Some Coach then [Coach_says ''Go on.''] else [])"

fun passing_answers :: "nat \<Rightarrow> answer list" where
  "passing_answers 0 = pass_round"
| "passing_answers (Suc m) = pass_round @ [Coach_says ''Next.'', User_types []] @ passing_answers m"

section \<open>Lemmas\<close>

lemma run_node_wf:
  assumes "wf_state s" "run_node sop n s as = Inr (s', as')"
  shows "wf_state s'"
  using assms
proof (cases n)
  case Orchestrator
  then show ?thesis
    using assms by (auto intro: orchestrator_wf)
qed (auto simp: wf_state_def keeps_session_def dest!: node_frames)

lemma run_node_frame:
  assumes "wf_state s" "run_node sop n s as = Inr (s', as')"
  shows "current_step s \<le> current_step s' \<and> prefix (history s) (history s') \<and>
         prefix (dialogue_history s) (dialogue_history s') \<and> suffix as' as"
  using assms
proof (cases n)
  case Orchestrator
  with assms have o: "orchestrator_node s = Inr s'" and "as' = as" by auto
  from assms(1) have "current_step s \<le> FINAL_STEP" by (simp add: wf_state_def)
  with o \<open>as' = as\<close> show ?thesis
    by (simp add: orchestrator_step_mono orchestrator_frame_transcripts)
qed (auto simp: keeps_session_def dest!: node_frames)

lemma invoke_frame:
  "wf_state s \<Longrightarrow> invoke k sop n s as = Inr (s', as') \<Longrightarrow>
     wf_state s' \<and> current_step s \<le> current_step s' \<and> prefix (history s) (history s') \<and>
     prefix (dialogue_history s) (dialogue_history s') \<and> suffix as' as"
proof (induction k arbitrary: n s as)
  case 0
  then show ?case by simp
next
  case (Suc k)
  from Suc.prems(2) obtain s1 as1 where r: "run_node sop n s as = Inr (s1, as1)"
    by (auto split: sum.splits)
  have w1: "wf_state s1" using Suc.prems(1) r by (rule run_node_wf)
  have f1: "current_step s \<le> current_step s1 \<and> prefix (history s) (history s1) \<and>
      prefix (dialogue_history s) (dialogue_history s1) \<and> suffix as1 as"
    using Suc.prems(1) r by (rule run_node_frame)
  show ?case
  proof (cases "edge n s1")
    case None
    with Suc.prems(2) r have "s' = s1" "as' = as1" by auto
    with w1 f1 show ?thesis by simp
  next
    case (Some n')
    with Suc.prems(2) r have "invoke k sop n' s1 as1 = Inr (s', as')" by simp
    with w1 have "wf_state s' \<and> current_step s1 \<le> current_step s' \<and>
        prefix (history s1) (history s') \<and> prefix (dialogue_history s1) (dialogue_history s') \<and>
        suffix as' as1"
      by (rule Suc.IH)
    with f1 show ?thesis
      by (meson order_trans prefix_order.trans suffix_order.trans)
  qed
qed

lemma user_node_consumes:
  "user_node sop s as = Inr (s', as') \<Longrightarrow> length as' < length as"
  by (auto simp: user_node_def Let_def split: sum.splits dest!: pop_user_Inr)

lemma invoke_coach_consumes:
  assumes "wf_state s" "invoke k sop Coach s as = Inr (s', as')"
  shows "length as' < length as"
proof -
  from assms(2) obtain k1 where k: "k = Suc k1" by (cases k) auto
  from assms(2) k obtain s1 as1 where r1: "coach_node s as = Inr (s1, as1)"
    and i1: "invoke k1 sop User s1 as1 = Inr (s', as')"
    by (auto split: sum.splits)
  from r1 have l1: "length as1 \<le> length as"
    by (auto dest!: coach_node_frame simp: suffix_def)
  from i1 obtain k2 where k2: "k1 = Suc k2" by (cases k1) auto
  from i1 k2 obtain s2 as2 where r2: "user_node sop s1 as1 = Inr (s2, as2)"
    and i2: "invoke k2 sop Grader s2 as2 = Inr (s', as')"
    by (auto split: sum.splits)
  from r2 have l2: "length as2 < length as1" by (rule user_node_consumes)
  have w2: "wf_state s2"
    using run_node_wf [of s sop Coach as s1 as1] run_node_wf [of s1 sop User as1 s2 as2]
      assms(1) r1 r2 by simp
  from invoke_frame [OF w2 i2] have "length as' \<le> length as2"
    by (auto simp: suffix_def)
  with l1 l2 show ?thesis by simp
qed

lemma drive_frame:
  "wf_state s \<Longrightarrow> drive k sop s as = Some (Inr (s', as')) \<Longrightarrow>
     wf_state s' \<and> current_step s \<le> current_step s' \<and> prefix (history s) (history s') \<and>
     prefix (dialogue_history s) (dialogue_history s') \<and> done_flag s'"
proof (induction k arbitrary: s as)
  case 0
  then show ?case by simp
next
  case (Suc k)
  show ?case
  proof (cases "done_flag s")
    case True
    with Suc.prems show ?thesis by simp
  next
    case False
    with Suc.prems(2) obtain s1 as1 where i: "simulation_invoke sop s as = Inr (s1, as1)"
      and f: "show_feedback s1 = None" and d: "drive k sop s1 as1 = Some (Inr (s', as'))"
      by (auto split: sum.splits option.splits)
    from invoke_frame [OF Suc.prems(1) i [unfolded simulation_invoke_def]]
    have f1: "wf_state s1 \<and> current_step s \<le> current_step s1 \<and> prefix (history s) (history s1) \<and>
        prefix (dialogue_history s) (dialogue_history s1)" by simp
    then have "wf_state s' \<and> current_step s1 \<le> current_step s' \<and> prefix (history s1) (history s') \<and>
        prefix (dialogue_history s1) (dialogue_history s') \<and> done_flag s'"
      using d by (intro Suc.IH) simp_all
    with f1 show ?thesis
      by (meson order_trans prefix_order.trans)
  qed
qed

lemma drive_enough_fuel:
  "wf_state s \<Longrightarrow> length as < k \<Longrightarrow> drive k sop s as \<noteq> None"
proof (induction k arbitrary: s as)
  case 0
  then show ?case by simp
next
  case (Suc k)
  show ?case
  proof (cases "done_flag s")
    case True
    then show ?thesis by simp
  next
    case False
    show ?thesis
    proof (cases "simulation_invoke sop s as")
      case (Inl e)
      with False show ?thesis by simp
    next
      case (Inr r)
      then obtain s1 as1 where i: "simulation_invoke sop s as = Inr (s1, as1)"
        by (cases r) auto
      have "length as1 < length as"
        using invoke_coach_consumes Suc.prems(1) i by (simp add: simulation_invoke_def)
      moreover have "wf_state s1"
        using invoke_frame [OF Suc.prems(1)] i by (simp add: simulation_invoke_def)
      ultimately have "drive k sop s1 as1 \<noteq> None"
        using Suc.prems(2) by (intro Suc.IH) simp_all
      with False i show ?thesis by (simp split: option.splits)
    qed
  qed
qed

lemma startswith_nonempty: "startswith t (p # ps) \<Longrightarrow> t \<noteq> []"
  by (cases t) auto

lemma turns_only_render: "turns_only es \<Longrightarrow> \<exists>t. render_dialogue es = Inr t"
  by (induction es rule: render_dialogue.induct)
     (auto simp: turns_only_def split: entry.splits)

lemma run_node_dialogue:
  assumes "turns_only (dialogue_history s)"
    and "n \<in> {Grader, Referee, Orchestrator} \<Longrightarrow> input_message s \<noteq> None"
    and "run_node sop n s as = Inr (s', as')"
  shows "turns_only (dialogue_history s') \<and>
         (n \<in> {User, Grader, Referee} \<longrightarrow> input_message s' \<noteq> None)"
proof (cases n)
  case Orchestrator
  with assms(3) have o: "orchestrator_node s = Inr s'" by simp
  from assms(2) Orchestrator have "input_message s \<noteq> None" by simp
  with o assms(1) Orchestrator show ?thesis
    by (cases rule: orchestrator_cases) (auto simp: turns_only_def entry_of_def)
qed (use assms in \<open>auto simp: node_defs turns_only_def Let_def
       split: if_splits sum.splits prod.splits option.splits\<close>)

lemma reach_dialogue:
  "reach sop n s \<Longrightarrow>
     turns_only (dialogue_history s) \<and> (n \<in> {Grader, Referee, Orchestrator} \<longrightarrow> input_message s \<noteq> None)"
proof (induction rule: reach.induct)
  case start
  then show ?case by (simp add: init_state_def turns_only_def)
next
  case (step n s as s' as' n')
  then have d: "turns_only (dialogue_history s') \<and>
      (n \<in> {User, Grader, Referee} \<longrightarrow> input_message s' \<noteq> None)"
    using run_node_dialogue by blast
  have "n' \<in> {Grader, Referee, Orchestrator} \<Longrightarrow> n \<in> {User, Grader, Referee}"
    using step.hyps(3) by (cases n) (auto split: option.splits node.splits)
  with d show ?case by blast
next
  case (restart n s as s' as')
  then show ?case using run_node_dialogue by blast
qed

lemma run_node_history:
  assumes "n \<in> {Grader, Referee, Orchestrator} \<longrightarrow> input_message s \<noteq> None"
    and "Null_entry \<notin> set (history s)" and "run_node sop n s as = Inr (s', as')"
  shows "Null_entry \<notin> set (history s')"
proof (cases n)
  case Orchestrator
  with assms(3) have o: "orchestrator_node s = Inr s'" by simp
  from assms(1) Orchestrator have "input_message s \<noteq> None" by simp
  with o assms(2) show ?thesis
    by (cases rule: orchestrator_cases) (auto simp: entry_of_def)
qed (use assms in \<open>auto simp: node_defs Let_def
       split: if_splits sum.splits prod.splits option.splits\<close>)

lemma reach_history: "reach sop n s \<Longrightarrow> Null_entry \<notin> set (history s)"
proof (induction rule: reach.induct)
  case start
  then show ?case by (simp add: init_state_def)
next
  case (step n s as s' as' n')
  then show ?case using run_node_history reach_dialogue by blast
next
  case (restart n s as s' as')
  then show ?case using run_node_history reach_dialogue by blast
qed

lemma invoke_history:
  "reach sop n s \<Longrightarrow> invoke k sop n s as = Inr (s', as') \<Longrightarrow>
     Null_entry \<notin> set (history s') \<and> (\<not> done_flag s' \<longrightarrow> reach sop Coach s')"
proof (induction k arbitrary: n s as)
  case 0
  then show ?case by simp
next
  case (Suc k)
  from Suc.prems(2) obtain s1 as1 where r1: "run_node sop n s as = Inr (s1, as1)"
    by (auto split: sum.splits)
  show ?case
  proof (cases "edge n s1")
    case None
    with Suc.prems(2) r1 have "s' = s1" by simp
    moreover have "Null_entry \<notin> set (history s1)"
      using run_node_history [OF _ _ r1] reach_dialogue [OF Suc.prems(1)]
        reach_history [OF Suc.prems(1)] by blast
    moreover have "\<not> done_flag s1 \<longrightarrow> reach sop Coach s1"
      using reach.restart [OF Suc.prems(1) r1 None] by blast
    ultimately show ?thesis by simp
  next
    case (Some n')
    with Suc.prems(2) r1 have "invoke k sop n' s1 as1 = Inr (s', as')" by simp
    with reach.step [OF Suc.prems(1) r1 Some] show ?thesis by (rule Suc.IH)
  qed
qed

lemma drive_history:
  "reach sop Coach s \<or> done_flag s \<and> Null_entry \<notin> set (history s) \<Longrightarrow>
     drive k sop s as = Some (Inr (s', as')) \<Longrightarrow> Null_entry \<notin> set (history s')"
proof (induction k arbitrary: s as)
  case 0
  then show ?case by simp
next
  case (Suc k)
  show ?case
  proof (cases "done_flag s")
    case True
    with Suc.prems show ?thesis using reach_history by auto
  next
    case False
    with Suc.prems(1) have rc: "reach sop Coach s" by blast
    from False Suc.prems(2) obtain s1 as1 where i: "simulation_invoke sop s as = Inr (s1, as1)"
      and d: "drive k sop s1 as1 = Some (Inr (s', as'))"
      by (auto split: sum.splits option.splits)
    from invoke_history [OF rc i [unfolded simulation_invoke_def]]
    have "reach sop Coach s1 \<or> done_flag s1 \<and> Null_entry \<notin> set (history s1)" by blast
    from Suc.IH [OF this d] show ?thesis .
  qed
qed

lemma load_steps_fold:
  "load_steps m sts =
     (if \<exists>st\<in>set sts. rubric st = Key_null then Inl AttributeError
      else Inr (fold (\<lambda>st m. m(step_number st \<mapsto> st)) sts m))"
  by (induction sts arbitrary: m) (auto simp: get_sop_step_description_def split: jfield.splits sum.splits)

lemma history_lines_Inr:
  "Null_entry \<notin> set es \<Longrightarrow> \<exists>ls. history_lines i es = Inr ls \<and> length ls = 3 * length es"
proof (induction es arbitrary: i)
  case (Cons e es)
  then obtain ls where "history_lines (Suc i) es = Inr ls" "length ls = 3 * length es"
    by fastforce
  with Cons.prems show ?case by (cases e) (auto simp: entry_role_def)
qed simp

lemma history_report_Inr:
  "Null_entry \<notin> set h \<Longrightarrow>
     \<exists>ls. history_lines 0 h = Inr ls \<and> length ls = 3 * length h \<and>
       history_report h =
         Inr (''\<newline>=== Simulation History ==='' #
              (if h = [] then [''No steps completed successfully.''] else ls) @
              [''=== End Simulation History ===''])"
  using history_lines_Inr [of h 0] by (auto simp: history_report_def)

lemma coach_led_snoc_coach: "coach_led es \<Longrightarrow> coach_led (es @ [Turn (Msg Coach_role c)])"
  by (induction es rule: coach_led.induct) auto

lemma coach_led_snoc_user:
  "coach_led es \<Longrightarrow> ends_with_coach es \<Longrightarrow> coach_led (es @ [Turn (Msg User_role u)])"
  by (induction es rule: coach_led.induct) (auto simp: ends_with_coach_def split: if_splits)

lemma ends_with_coach_snoc [simp]: "ends_with_coach (es @ [Turn (Msg Coach_role c)])"
  by (simp add: ends_with_coach_def)

lemma run_node_dialogue_inv:
  assumes "dialogue_inv n s" "run_node sop n s as = Inr (s', as')"
    and "edge n s' = Some n' \<or> (edge n s' = None \<and> n' = Coach \<and> \<not> done_flag s')"
  shows "dialogue_inv n' s'"
proof (cases n)
  case Orchestrator
  with assms(2) have o: "orchestrator_node s = Inr s'" by simp
  from assms(1) Orchestrator obtain u where u: "input_message s = Some (Msg User_role u)"
    by (auto simp: dialogue_inv_def)
  from o assms(1,3) Orchestrator u show ?thesis
    by (cases rule: orchestrator_cases)
       (auto simp: dialogue_inv_def entry_of_def coach_led_snoc_user split: option.splits node.splits if_splits)
next
  case Coach
  with assms show ?thesis
    by (auto simp: dialogue_inv_def coach_node_def Let_def coach_led_snoc_coach
             split: if_splits sum.splits prod.splits)
qed (use assms in \<open>auto simp: dialogue_inv_def node_defs Let_def
       split: if_splits sum.splits prod.splits option.splits\<close>)

lemma reach_dialogue_inv: "reach sop n s \<Longrightarrow> dialogue_inv n s"
proof (induction rule: reach.induct)
  case start
  then show ?case by (simp add: dialogue_inv_def init_state_def)
next
  case (step n s as s' as' n')
  then show ?case using run_node_dialogue_inv by blast
next
  case (restart n s as s' as')
  then show ?case using run_node_dialogue_inv by blast
qed

lemma coach_node_speaks:
  assumes "turns_only (dialogue_history s)" "next_node s = None \<or> next_node s = Some Coach"
  shows "coach_node s (Coach_says r # as) =
    Inr (s\<lparr>coach_message := Some (py_strip r), input_message := Some (Msg Coach_role (py_strip r)),
           last_grader := None, last_referee := None,
           history := history s @ [Turn (Msg Coach_role (py_strip r))],
           dialogue_history := dialogue_history s @ [Turn (Msg Coach_role (py_strip r))],
           next_node := Some Grader\<rparr>, as)"
  using assms turns_only_render [OF assms(1)] by (auto simp: coach_node_def Let_def)

lemma coach_node_skips:
  "next_node s \<noteq> None \<Longrightarrow> next_node s \<noteq> Some Coach \<Longrightarrow> coach_node s as = Inr (s, as)"
  by (simp add: coach_node_def)

lemma turns_only_simps [simp]:
  "turns_only []" "turns_only (Turn m # es) \<longleftrightarrow> turns_only es"
  "turns_only (es @ fs) \<longleftrightarrow> turns_only es \<and> turns_only fs"
  by (simp_all add: turns_only_def)

lemma pass_round_facts:
  "user_route ''ok'' = Grader" "py_strip ''Go on.'' = ''Go on.''" "py_strip ''Next.'' = ''Next.''"
  by code_simp+

lemmas pass_round_simps = numeral_eq_Suc coach_node_speaks user_node_def grader_node_def
  referee_node_def orchestrator_node_def sop_index_def entry_of_def good_verdict_def
  agreeing_audit_def referee_agrees_def pass_round_def coach_opening_def Let_def pass_round_facts

lemma invoke_pass_round:
  assumes "turns_only (dialogue_history s)" "sop (current_step s) = Some st"
    and "get_sop_step_description sop (current_step s) = Inr d"
    and "get_sop_step_description sop (current_step s + 1) = Inr d'" "current_step s < 6"
  shows "\<exists>s'. invoke 25 sop Coach s
      (coach_opening s @ pass_round @ [Coach_says ''Next.'', User_types []] @ rest) = Inr (s', rest) \<and>
      current_step s' = current_step s + 1 \<and> \<not> done_flag s' \<and> next_node s' = Some Grader \<and>
      last_referee s' = None \<and> last_grader s' = Some (Object (no_message_verdict (current_step s + 1))) \<and>
      turns_only (dialogue_history s')"
proof (cases "next_node s = None \<or> next_node s = Some Coach")
  case True
  with assms show ?thesis by (simp add: pass_round_simps user_route_def[of "[]"] py_lower_def)
next
  case False
  with assms show ?thesis
    by (simp add: pass_round_simps coach_node_skips user_route_def[of "[]"] py_lower_def)
qed

lemma invoke_pass_last:
  assumes "turns_only (dialogue_history s)" "sop (current_step s) = Some st"
    and "get_sop_step_description sop (current_step s) = Inr d" "6 \<le> current_step s"
  shows "\<exists>s'. invoke 25 sop Coach s (coach_opening s @ pass_round @ rest) = Inr (s', rest) \<and>
      done_flag s' \<and> last_referee s' = None \<and> last_grader s' = None"
proof (cases "next_node s = None \<or> next_node s = Some Coach")
  case True
  with assms show ?thesis by (simp add: pass_round_simps)
next
  case False
  with assms show ?thesis by (simp add: pass_round_simps coach_node_skips)
qed

lemma reach_wf: "reach sop n s \<Longrightarrow> wf_state s"
  by (induction rule: reach.induct) (auto simp: wf_init_state intro: run_node_wf)

lemma passing_answers_length: "Suc m \<le> length (passing_answers m)"
  by (induction m) (auto simp: pass_round_def)

lemma drive_more_fuel: "drive k sop s as = Some r \<Longrightarrow> drive (k + j) sop s as = Some r"
  by (induction k arbitrary: s as) (auto split: if_splits sum.splits option.splits prod.splits)

lemma drive_passing:
  assumes "turns_only (dialogue_history s)" "\<not> done_flag s" "current_step s + int m = 6"
    "list_all (step_ready sop) [current_step s..6]"
  shows "\<exists>s'. drive (Suc (Suc m)) sop s (coach_opening s @ passing_answers m) = Some (Inr (s', [])) \<and>
      done_flag s'"
  using assms
proof (induction m arbitrary: s)
  case 0
  then obtain st d where st: "sop (current_step s) = Some st"
    "get_sop_step_description sop (current_step s) = Inr d"
    by (auto simp: upto_rec1 elim: step_ready_Inr)
  from invoke_pass_last [where s = s and sop = sop and st = st and rest = "[]"] "0.prems"(1,3) st
  obtain s' where "invoke 25 sop Coach s (coach_opening s @ pass_round) = Inr (s', [])"
    "done_flag s'" "last_referee s' = None" "last_grader s' = None" by auto
  with "0.prems"(2) show ?case
    by (simp add: simulation_invoke_def show_feedback_def numeral_2_eq_2)
next
  case (Suc m)
  then obtain st d where st: "sop (current_step s) = Some st"
    "get_sop_step_description sop (current_step s) = Inr d"
    by (auto simp: upto_rec1 elim: step_ready_Inr)
  from Suc.prems(3) have lt: "current_step s < 6" by simp
  from Suc.prems(4) lt obtain st' d' where
    "get_sop_step_description sop (current_step s + 1) = Inr d'"
    by (auto simp: upto_rec1 elim: step_ready_Inr)
  with invoke_pass_round [where s = s and sop = sop and st = st and rest = "passing_answers m"]
    Suc.prems(1) st lt
  obtain s1 where i: "invoke 25 sop Coach s
      (coach_opening s @ pass_round @ [Coach_says ''Next.'', User_types []] @ passing_answers m) =
      Inr (s1, passing_answers m)"
    and f: "current_step s1 = current_step s + 1" "\<not> done_flag s1" "next_node s1 = Some Grader"
      "last_referee s1 = None" "last_grader s1 = Some (Object (no_message_verdict (current_step s + 1)))"
      "turns_only (dialogue_history s1)"
    by blast
  have "list_all (step_ready sop) [current_step s1..6]"
    using Suc.prems(4) lt f(1) by (simp add: upto_rec1)
  with f Suc.prems(3) obtain s' where
    "drive (Suc (Suc m)) sop s1 (coach_opening s1 @ passing_answers m) = Some (Inr (s', [])) \<and>
     done_flag s'"
    using Suc.IH [of s1] by auto
  with i f Suc.prems(2) show ?case
    by (simp add: simulation_invoke_def show_feedback_def coach_opening_def)
qed

section \<open>Properties\<close>

text \<open>
  C5. In every state the graph can reach, whatever the chat models and the trainee
  answer, the session invariant holds (step within \<open>1..6\<close>, retry count below
  \<open>MAX_GRADER_RETRIES\<close>, completion only at step 6), and the next node run never
  lowers the step and only appends to \<open>history\<close> and \<open>dialogue_history\<close>.
\<close>

theorem reach_invariant:
  "reach sop n s \<Longrightarrow>
     wf_state s \<and>
     (\<forall>as s' as'. run_node sop n s as = Inr (s', as') \<longrightarrow>
        current_step s \<le> current_step s' \<and> prefix (history s) (history s') \<and>
        prefix (dialogue_history s) (dialogue_history s'))"
proof (induction rule: reach.induct)
  case start
  then show ?case using wf_init_state run_node_frame by blast
next
  case (step n s as s' as' n')
  then have "wf_state s'" using run_node_wf by blast
  then show ?case using run_node_frame by blast
next
  case (restart n s as s' as')
  then have "wf_state s'" using run_node_wf by blast
  then show ?case using run_node_frame by blast
qed

theorem reach_invariant_witness:
  "reach Map.empty Coach init_state \<and> wf_state init_state"
  using reach_invariant [OF reach.start [of Map.empty]] reach.start [of Map.empty] by simp

text \<open>
  C6. The step and the completion flag change only in the orchestrator, and only when
  the grader passed the attempt and the referee agreed: a disputed or failed judgement
  never moves the procedure.
\<close>

theorem progress_requires_consensus:
  assumes "run_node sop n s as = Inr (s', as')"
    and "current_step s' \<noteq> current_step s \<or> done_flag s' \<noteq> done_flag s"
  shows "n = Orchestrator \<and>
         (\<exists>g r. last_grader s = Some (Object g) \<and> step_passed g \<and>
                last_referee s = Some (Object r) \<and> referee_agrees r)"
proof (cases n)
  case Orchestrator
  with assms(1) have "orchestrator_node s = Inr s'" by simp
  then show ?thesis
  proof (cases rule: orchestrator_cases)
    case (advance r g)
    with Orchestrator show ?thesis by blast
  qed (use assms(2) in auto)
qed (use assms in \<open>auto simp: keeps_session_def dest!: node_frames\<close>)

theorem progress_requires_consensus_witness:
  "run_node Map.empty Orchestrator
     (init_state\<lparr>last_grader := Some (Object \<lparr>g_message = ''ok'', g_current_step = 1, step_passed = True\<rparr>),
                 last_referee := Some (Object \<lparr>referee_grade = ''pass'', r_message = None,
                                        r_feedback = None, must_regenerate = False\<rparr>)\<rparr>) [] =
     Inr (init_state\<lparr>current_step := 2, next_node := Some Coach, dialogue_history := [Null_entry]\<rparr>, []) \<and>
   step_passed \<lparr>g_message = ''ok'', g_current_step = 1, step_passed = True\<rparr>"
proof -
  let ?s = "init_state\<lparr>last_grader := Some (Object \<lparr>g_message = ''ok'', g_current_step = 1, step_passed = True\<rparr>),
                 last_referee := Some (Object \<lparr>referee_grade = ''pass'', r_message = None,
                                        r_feedback = None, must_regenerate = False\<rparr>)\<rparr>"
  let ?t = "init_state\<lparr>current_step := 2, next_node := Some Coach, dialogue_history := [Null_entry]\<rparr>"
  have r: "run_node Map.empty Orchestrator ?s [] = Inr (?t, [])"
    by (simp add: orchestrator_node_def init_state_def referee_agrees_def entry_of_def)
  have "current_step ?t \<noteq> current_step ?s \<or> done_flag ?t \<noteq> done_flag ?s"
    by (simp add: init_state_def)
  from progress_requires_consensus [OF r this] r show ?thesis by (auto simp: init_state_def)
qed

text \<open>
  C7. \<open>run_simulation\<close> always ends: every invocation of the graph reads at least
  one reply of the trainee, so the driver loop stops (completed, or with the exception
  raised) before the answers run out.
\<close>

theorem run_simulation_total: "\<exists>r. run_simulation steps as = Some r"
  using drive_enough_fuel [OF wf_init_state, of as "Suc (length as)"]
  by (simp add: run_simulation_def split: sum.split)

text \<open>
  C8. A direct question to the grader (a reply starting with \<open>"Grader:"\<close>) is
  answered in interaction mode and control comes back to the trainee: no referee answer
  is consumed, no audit is stored, the step, the retry count and the completion flag
  are unchanged, and \<open>history\<close> gains the question and the grader's guidance with
  \<open>step_passed\<close> false.
\<close>

theorem direct_question_turn:
  assumes "startswith t ''Grader:''" "step_ready sop (current_step s)"
  shows "\<exists>s'. (\<forall>k. invoke (Suc (Suc (Suc (Suc k)))) sop User s (User_types t # Grader_says a j # as) =
                   invoke k sop User s' as) \<and>
           current_step s' = current_step s \<and> grader_retries s' = grader_retries s \<and>
           done_flag s' = done_flag s \<and> last_referee s' = None \<and>
           history s' = history s @ [Turn (Msg User_role t),
             Grader_note \<lparr>g_message = a, g_current_step = current_step s, step_passed = False\<rparr>]"
proof -
  from assms(2) obtain st d where "sop (current_step s) = Some st"
    "get_sop_step_description sop (current_step s) = Inr d" by (rule step_ready_Inr)
  with assms(1) startswith_nonempty [OF assms(1)] show ?thesis
    by (simp add: node_defs sop_index_def Let_def) (intro exI conjI allI, rule refl, simp_all)
qed

theorem direct_question_turn_witness:
  "\<exists>s'. (\<forall>k. invoke (Suc (Suc (Suc (Suc k)))) (Map.empty(1 \<mapsto> \<lparr>step_name = ''ack'', step_number = 1, rubric = Key_missing\<rparr>))
               User init_state (User_types ''Grader: any hint?'' # Grader_says ''Think of empathy.'' None # []) =
             invoke k (Map.empty(1 \<mapsto> \<lparr>step_name = ''ack'', step_number = 1, rubric = Key_missing\<rparr>)) User s' []) \<and>
        current_step s' = 1 \<and> grader_retries s' = 0 \<and> last_referee s' = None"
proof -
  let ?st = "\<lparr>step_name = ''ack'', step_number = 1, rubric = Key_missing\<rparr>"
  have h: "startswith ''Grader: any hint?'' ''Grader:''" by simp
  have c: "step_ready (Map.empty(1 \<mapsto> ?st)) (current_step init_state)"
    by (simp add: init_state_def step_ready_def)
  from direct_question_turn [where t = "''Grader: any hint?''" and sop = "Map.empty(1 \<mapsto> ?st)"
      and s = init_state and a = "''Think of empathy.''" and j = None and as = "[]",
      OF h c]
  show ?thesis by (auto simp: init_state_def)
qed

text \<open>
  C9. A graded attempt that the grader fails and the referee confirms is logged in
  \<open>history\<close> twice (once by \<open>user_node\<close>, once by the orchestrator), while the
  step stays and the retry count is reset; the trainee is asked again.
\<close>

theorem confirmed_fail_logs_reply_twice:
  assumes "\<not> startswith t ''Grader:''" "t \<noteq> []" "user_route t = Grader"
    and "step_ready sop (current_step s)" "\<not> step_passed g" "referee_agrees r"
  shows "\<exists>s'. (\<forall>k. invoke (Suc (Suc (Suc (Suc k)))) sop User s
                      (User_types t # Grader_says a (Some (Object g)) # Referee_says (Some (Object r)) # as) =
                   invoke k sop User s' as) \<and>
           history s' = history s @ [Turn (Msg User_role t), Turn (Msg User_role t)] \<and>
           current_step s' = current_step s \<and> grader_retries s' = 0"
proof -
  from assms(4) obtain st d where "sop (current_step s) = Some st"
    "get_sop_step_description sop (current_step s) = Inr d" by (rule step_ready_Inr)
  with assms show ?thesis
    by (simp add: node_defs sop_index_def Let_def entry_of_def) (intro exI conjI allI, rule refl, simp_all)
qed

theorem confirmed_fail_logs_reply_twice_witness:
  "\<exists>s'. (\<forall>k. invoke (Suc (Suc (Suc (Suc k)))) (Map.empty(1 \<mapsto> \<lparr>step_name = ''ack'', step_number = 1, rubric = Key_missing\<rparr>))
               User init_state
               (User_types ''whatever'' #
                Grader_says ''{}'' (Some (Object \<lparr>g_message = ''missing empathy'', g_current_step = 1,
                                                 step_passed = False\<rparr>)) #
                Referee_says (Some (Object \<lparr>referee_grade = ''pass'', r_message = Some ''right'',
                                            r_feedback = None, must_regenerate = False\<rparr>)) # []) =
             invoke k (Map.empty(1 \<mapsto> \<lparr>step_name = ''ack'', step_number = 1, rubric = Key_missing\<rparr>)) User s' []) \<and>
        history s' = [Turn (Msg User_role ''whatever''), Turn (Msg User_role ''whatever'')]"
proof -
  let ?st = "\<lparr>step_name = ''ack'', step_number = 1, rubric = Key_missing\<rparr>"
  let ?g = "\<lparr>g_message = ''missing empathy'', g_current_step = 1, step_passed = False\<rparr>"
  let ?r = "\<lparr>referee_grade = ''pass'', r_message = Some ''right'', r_feedback = None,
             must_regenerate = False\<rparr>"
  have a: "\<not> startswith ''whatever'' ''Grader:''" "''whatever'' \<noteq> []" by simp_all
  have b: "user_route ''whatever'' = Grader"
    by (simp add: user_route_def py_lower_def lower_char_def)
  have c: "step_ready (Map.empty(1 \<mapsto> ?st)) (current_step init_state)"
    by (simp add: init_state_def step_ready_def)
  have d: "\<not> step_passed ?g" by simp
  have e: "referee_agrees ?r" by (simp add: referee_agrees_def)
  from confirmed_fail_logs_reply_twice [where t = "''whatever''" and sop = "Map.empty(1 \<mapsto> ?st)"
      and s = init_state and g = ?g and r = ?r and a = "''{}''" and as = "[]",
      OF a b c d e]
  show ?thesis by (auto simp: init_state_def)
qed

text \<open>
  C10. A re-grade is not a re-grade of the stored attempt: after a disagreement the
  orchestrator routes to \<open>"grader"\<close>, which has no edge, so the driver invokes the
  graph again from the coach; the coach is skipped and \<open>user_node\<close> must read a
  new reply from the console before anything is graded. With no reply left, the
  invocation raises \<open>EOFError\<close> instead of re-grading the stored attempt.
\<close>

theorem regrade_reads_new_reply:
  assumes "next_node s = Some Grader" "get_sop_step_description sop (current_step s) = Inr d"
  shows "coach_node s as = Inr (s, as) \<and> simulation_invoke sop s [] = Inl EOFError"
  using assms
  by (simp add: simulation_invoke_def node_defs numeral_eq_Suc)

theorem regrade_reads_new_reply_witness:
  "simulation_invoke Map.empty (init_state\<lparr>next_node := Some Grader\<rparr>) [] = Inl EOFError"
  using regrade_reads_new_reply [of "init_state\<lparr>next_node := Some Grader\<rparr>" Map.empty "''No description''" "[]"]
  by simp

text \<open>
  C12. A falsy verdict ends the session with an exception: when the grader's reply
  parses to a falsy JSON value (\<open>{}\<close>, \<open>null\<close>, \<open>false\<close>, \<open>0\<close>,
  \<open>""\<close>, \<open>[]\<close>), the referee does not audit it but stores its missing-inputs
  audit, which is truthy, so the orchestrator subscripts the verdict
  (\<open>grader["step_passed"]\<close>, line 383) and raises, \<open>KeyError\<close> for \<open>{}\<close> and
  \<open>TypeError\<close> for the others, instead of failing the attempt or re-grading.
\<close>

theorem falsy_verdict_crashes:
  assumes "input_message s = Some m" "content m \<noteq> []" "\<not> startswith (content m) ''Grader:''"
    and "next_node s = Some Grader" "step_ready sop (current_step s)" "\<not> truthy (Some v)"
  shows "invoke (Suc (Suc (Suc k))) sop Grader s (Grader_says t (Some v) # as) =
           Inl (if v = Empty_object then KeyError else TypeError)"
proof -
  from assms(5) obtain st d where "sop (current_step s) = Some st"
    "get_sop_step_description sop (current_step s) = Inr d" by (rule step_ready_Inr)
  with assms(1-4,6) show ?thesis
    by (cases v) (simp_all add: node_defs sop_index_def Let_def)
qed

theorem falsy_verdict_crashes_witness:
  "invoke (Suc (Suc (Suc 0))) (Map.empty(1 \<mapsto> \<lparr>step_name = ''ack'', step_number = 1, rubric = Key_missing\<rparr>))
     Grader (init_state\<lparr>input_message := Some (Msg User_role ''sorry''), next_node := Some Grader\<rparr>)
     [Grader_says ''null'' (Some (Not_object False))] = Inl TypeError"
  using falsy_verdict_crashes
    [where s = "init_state\<lparr>input_message := Some (Msg User_role ''sorry''), next_node := Some Grader\<rparr>"
       and m = "Msg User_role ''sorry''"
       and sop = "Map.empty(1 \<mapsto> \<lparr>step_name = ''ack'', step_number = 1, rubric = Key_missing\<rparr>)"
       and v = "Not_object False" and k = 0 and t = "''null''" and as = "[]"]
  by (simp add: init_state_def step_ready_def)

text \<open>
  C13. A truthy reply that is not a JSON object ends the session with
  \<open>TypeError\<close>: if the grader's reply parses to a truthy non-object (a bare string,
  a number, \<open>true\<close>, a non-empty array), the referee audits it and, on any truthy
  audit, the orchestrator subscripts it at line 383; if the verdict is an object but
  the audit is a truthy non-object, the orchestrator subscripts the audit at line 384.
\<close>

theorem non_object_reply_crashes:
  assumes "input_message s = Some m" "content m \<noteq> []" "\<not> startswith (content m) ''Grader:''"
    and "next_node s = Some Grader" "step_ready sop (current_step s)"
    and "truthy (Some v)" "truthy (Some r)" "(\<forall>g. v \<noteq> Object g) \<or> (\<forall>x. r \<noteq> Object x)"
  shows "invoke (Suc (Suc (Suc k))) sop Grader s (Grader_says t (Some v) # Referee_says (Some r) # as) =
           Inl TypeError"
proof -
  from assms(5) obtain st d where "sop (current_step s) = Some st"
    "get_sop_step_description sop (current_step s) = Inr d" by (rule step_ready_Inr)
  with assms(1-4,6-8) show ?thesis
    by (cases v; cases r) (simp_all add: node_defs sop_index_def Let_def)
qed

theorem non_object_reply_crashes_witness:
  "invoke (Suc (Suc (Suc 0))) (Map.empty(1 \<mapsto> \<lparr>step_name = ''ack'', step_number = 1, rubric = Key_missing\<rparr>))
     Grader (init_state\<lparr>input_message := Some (Msg User_role ''sorry''), next_node := Some Grader\<rparr>)
     [Grader_says ''{}'' (Some (Object \<lparr>g_message = ''ok'', g_current_step = 1, step_passed = True\<rparr>)),
      Referee_says (Some (Not_object True))] = Inl TypeError"
  using non_object_reply_crashes
    [where s = "init_state\<lparr>input_message := Some (Msg User_role ''sorry''), next_node := Some Grader\<rparr>"
       and m = "Msg User_role ''sorry''"
       and sop = "Map.empty(1 \<mapsto> \<lparr>step_name = ''ack'', step_number = 1, rubric = Key_missing\<rparr>)"
       and v = "Object \<lparr>g_message = ''ok'', g_current_step = 1, step_passed = True\<rparr>"
       and r = "Not_object True" and k = 0 and t = "''{}''" and as = "[]"]
  by (simp add: init_state_def step_ready_def)

text \<open>
  C22. Loading the catalog (lines 462--466) either stops at once with
  \<open>AttributeError\<close>, when some step of the sample has a \<open>null\<close> rubric (its
  description is printed as it is stored), or stores every step under its number,
  a later step replacing an earlier one with the same number, and then runs the driver
  loop on that catalog.
\<close>

theorem run_simulation_loading:
  "run_simulation steps as =
     (if \<exists>st\<in>set steps. rubric st = Key_null then Some (Inl AttributeError)
      else drive (Suc (length as)) (fold (\<lambda>st m. m(step_number st \<mapsto> st)) steps Map.empty) init_state as)"
  by (simp add: run_simulation_def load_steps_fold)

text \<open>
  C34. A falsy audit silently drops the verdict: when the referee's reply parses to
  \<open>{}\<close>, \<open>null\<close> or another falsy value, the orchestrator does nothing
  (\<open>if referee:\<close>), so neither the step nor the retry count moves, the
  invocation ends with \<open>next_node\<close> left at \<open>"referee"\<close>, the feedback prints
  the verdict's message without raising, and the trainee is asked again as if nothing
  had been judged.
\<close>

theorem falsy_audit_drops_verdict:
  assumes "input_message s = Some m" "content m \<noteq> []" "\<not> startswith (content m) ''Grader:''"
    and "next_node s = Some Grader" "step_ready sop (current_step s)" "\<not> truthy (Some r)"
  shows "invoke (Suc (Suc (Suc k))) sop Grader s (Grader_says t (Some (Object g)) # Referee_says (Some r) # as) =
           Inr (s\<lparr>last_grader := Some (Object g), next_node := Some Referee, last_referee := Some r\<rparr>, as) \<and>
         show_feedback (s\<lparr>last_grader := Some (Object g), next_node := Some Referee,
                          last_referee := Some r\<rparr>) = None"
proof -
  from assms(5) obtain st d where "sop (current_step s) = Some st"
    "get_sop_step_description sop (current_step s) = Inr d" by (rule step_ready_Inr)
  with assms(1-4,6) show ?thesis
    by (cases r) (simp_all add: node_defs sop_index_def Let_def show_feedback_def)
qed

theorem falsy_audit_drops_verdict_witness:
  "invoke (Suc (Suc (Suc 0))) (Map.empty(1 \<mapsto> \<lparr>step_name = ''ack'', step_number = 1, rubric = Key_missing\<rparr>))
     Grader (init_state\<lparr>input_message := Some (Msg User_role ''sorry''), next_node := Some Grader\<rparr>)
     [Grader_says ''{}'' (Some (Object \<lparr>g_message = ''ok'', g_current_step = 1, step_passed = True\<rparr>)),
      Referee_says (Some Empty_object)] =
   Inr (init_state\<lparr>input_message := Some (Msg User_role ''sorry''), next_node := Some Referee,
          last_grader := Some (Object \<lparr>g_message = ''ok'', g_current_step = 1, step_passed = True\<rparr>),
          last_referee := Some Empty_object\<rparr>, [])"
  using falsy_audit_drops_verdict
    [where s = "init_state\<lparr>input_message := Some (Msg User_role ''sorry''), next_node := Some Grader\<rparr>"
       and m = "Msg User_role ''sorry''"
       and sop = "Map.empty(1 \<mapsto> \<lparr>step_name = ''ack'', step_number = 1, rubric = Key_missing\<rparr>)"
       and g = "\<lparr>g_message = ''ok'', g_current_step = 1, step_passed = True\<rparr>"
       and r = "Empty_object" and k = 0 and t = "''{}''" and as = "[]"]
  by (simp add: init_state_def step_ready_def)

text \<open>
  C23. In every reachable state the dialogue holds only messages, so the coach can
  always render it: the \<open>TypeError\<close> and \<open>KeyError\<close> branches of
  \<open>coach_node\<close> (a \<open>None\<close> or a grader dictionary in \<open>dialogue_history\<close>) are
  unreachable, because the orchestrator appends the reply only after \<open>user_node\<close>
  has set it.
\<close>

theorem reach_coach_renders:
  "reach sop n s \<Longrightarrow> \<exists>t. render_dialogue (dialogue_history s) = Inr t"
  using reach_dialogue turns_only_render by blast

theorem reach_coach_renders_witness:
  "\<exists>t. render_dialogue (dialogue_history init_state) = Inr t"
  using reach_coach_renders [OF reach.start [of Map.empty]] .

text \<open>
  C31. The dialogue the coach reads is well formed in every reachable state: it is made
  of messages, starts with a coach turn, and every user turn directly follows a coach
  turn (the orchestrator appends the reply only on an agreed pass, right after the
  coach turn it answers).
\<close>

theorem reach_dialogue_coach_led:
  "reach sop n s \<Longrightarrow> coach_led (dialogue_history s)"
  using reach_dialogue_inv by (auto simp: dialogue_inv_def)

theorem reach_dialogue_coach_led_witness:
  "coach_led (dialogue_history init_state)"
  using reach_dialogue_coach_led [OF reach.start [of Map.empty]] .

text \<open>
  C32. The dialogue is not the alternating transcript the state's comment promises: a
  reply starting with \<open>"coach:"\<close> goes to the coach without being added to the
  dialogue, so the coach speaks twice in a row and never sees the question.
\<close>

theorem dialogue_two_coach_turns:
  "\<exists>s. reach Map.empty User s \<and>
       dialogue_history s = [Turn (Msg Coach_role ''Hi''), Turn (Msg Coach_role ''Again'')]"
proof -
  let ?q = "''coach: why?''"
  let ?s1 = "init_state\<lparr>coach_message := Some ''Hi'', input_message := Some (Msg Coach_role ''Hi''),
             last_grader := None, last_referee := None,
             history := [Turn (Msg Coach_role ''Hi'')], dialogue_history := [Turn (Msg Coach_role ''Hi'')],
             next_node := Some Grader\<rparr>"
  let ?s2 = "?s1\<lparr>input_message := Some (Msg User_role ?q),
             history := [Turn (Msg Coach_role ''Hi''), Turn (Msg User_role ?q)],
             next_node := Some (user_route ?q)\<rparr>"
  let ?s4 = "?s2\<lparr>last_referee := None\<rparr>"
  let ?s6 = "?s4\<lparr>coach_message := Some ''Again'', input_message := Some (Msg Coach_role ''Again''),
             last_grader := None, last_referee := None,
             history := [Turn (Msg Coach_role ''Hi''), Turn (Msg User_role ?q),
                         Turn (Msg Coach_role ''Again'')],
             dialogue_history := [Turn (Msg Coach_role ''Hi''), Turn (Msg Coach_role ''Again'')],
             next_node := Some Grader\<rparr>"
  have rt: "user_route ?q = Coach" by code_simp
  have c: "run_node Map.empty Coach init_state [Coach_says ''Hi''] = Inr (?s1, [])"
    by (simp add: coach_node_def init_state_def py_strip_def is_py_space_def Let_def)
  have r1: "reach Map.empty User ?s1"
    by (rule reach.step [OF reach.start c]) simp
  have u: "run_node Map.empty User ?s1 [User_types ?q] = Inr (?s2, [])"
    by (simp add: user_node_def Let_def)
  have r2: "reach Map.empty Grader ?s2"
    by (rule reach.step [OF r1 u]) simp
  have g: "run_node Map.empty Grader ?s2 [] = Inr (?s2, [])"
    using rt by (simp add: grader_node_def Let_def)
  have r3: "reach Map.empty Referee ?s2"
    by (rule reach.step [OF r2 g]) simp
  have f: "run_node Map.empty Referee ?s2 [] = Inr (?s4, [])"
    using rt by (simp add: referee_node_def)
  have r4: "reach Map.empty Orchestrator ?s4"
    by (rule reach.step [OF r3 f]) simp
  have o: "run_node Map.empty Orchestrator ?s4 [Coach_says ''Again''] = Inr (?s4, [Coach_says ''Again''])"
    by (simp add: orchestrator_node_def)
  have r5: "reach Map.empty Coach ?s4"
    by (rule reach.step [OF r4 o]) (simp add: rt)
  have c2: "run_node Map.empty Coach ?s4 [Coach_says ''Again''] = Inr (?s6, [])"
    using rt by (simp add: coach_node_def init_state_def py_strip_def is_py_space_def Let_def)
  have "reach Map.empty User ?s6"
    by (rule reach.step [OF r5 c2]) simp
  then show ?thesis by auto
qed


text \<open>
  C33. A session can always be completed: from every state the graph can be in between
  invocations, if the catalog holds the remaining steps, there are answers of the chat
  models and the trainee with which the driver loop finishes with the session complete
  (one invocation per step; the re-grade and interaction states are left by the next
  reply).
\<close>

theorem reach_session_completable:
  assumes "reach sop Coach s" "\<not> done_flag s" "list_all (step_ready sop) [current_step s..6]"
  shows "\<exists>as s'. drive (Suc (length as)) sop s as = Some (Inr (s', [])) \<and> done_flag s'"
proof -
  from reach_wf [OF assms(1)] have "current_step s + int (nat (6 - current_step s)) = 6"
    by (simp add: wf_state_def)
  then obtain m where m: "current_step s + int m = 6" by blast
  from reach_dialogue [OF assms(1)] have "turns_only (dialogue_history s)" by simp
  from drive_passing [OF this assms(2) m assms(3)] obtain s' where
    d: "drive (Suc (Suc m)) sop s (coach_opening s @ passing_answers m) = Some (Inr (s', []))"
    and "done_flag s'" by blast
  let ?as = "coach_opening s @ passing_answers m"
  have "Suc (length ?as) = Suc (Suc m) + (length ?as - Suc m)"
    using passing_answers_length [of m] by simp
  with drive_more_fuel [OF d] \<open>done_flag s'\<close> show ?thesis by metis
qed

end
