(* ===== verification/CustomerSim.thy ===== *)
theory CustomerSim
  imports Session
begin

text \<open>
  The customer-reply training loop: \<open>simulate_customer_interaction\<close>
  (\<open>src/training_simulation.py\<close>, lines 11--45) and the helpers of \<open>src/llm.py\<close>
  it calls: \<open>evaluate_customer_response\<close> (lines 77--115) with its two fallbacks,
  \<open>format_history_for_llm\<close> (60--61) and the yes/no test of \<open>is_reply_chunk\<close>
  (44--57). The chat model and the console are again a stream of answers; the
  \<open>while True\<close> loop is a function with fuel.
\<close>

section \<open>Definitions\<close>

text \<open>
  The evaluator's JSON as the loop reads it: \<open>passed\<close>, \<open>complete\<close>,
  \<open>feedback\<close> and \<open>step\<close> (llm.py lines 95--104), each possibly absent.
\<close>

record cs_feedback =
  fb_passed :: "bool option"
  fb_complete :: "bool option"
  fb_text :: "string option"
  fb_step :: "string option"

text \<open>Python truthiness of \<open>feedback.get(key)\<close> for a boolean entry.\<close>

definition flag :: "bool option \<Rightarrow> bool" where
  "flag b = (case b of Some True \<Rightarrow> True | _ \<Rightarrow> False)"

text \<open>
  \<open>evaluate_customer_response\<close>: the model's reply \<open>content\<close> and what
  \<open>json.loads\<close> makes of it. An empty reply and a reply that does not parse both
  become a failing verdict with a diagnostic.
\<close>

definition evaluate_customer_response :: "string \<Rightarrow> cs_feedback option \<Rightarrow> cs_feedback" where
  "evaluate_customer_response reply parsed =
     (if reply = [] then
        \<lparr>fb_passed = Some False, fb_complete = None,
         fb_text = Some ''No response from LLM.'', fb_step = None\<rparr>
      else
        (case parsed of
           None \<Rightarrow> \<lparr>fb_passed = Some False, fb_complete = None,
                    fb_text = Some (''Could not parse response: '' @ reply), fb_step = None\<rparr>
         | Some f \<Rightarrow> f))"

type_synonym chat = "(string \<times> string) list"





text \<open>\<open>is_reply_chunk\<close>: the model's answer counts as yes after strip and lower.\<close>

definition is_reply_answer :: "string \<Rightarrow> bool" where
  "is_reply_answer a = (py_lower (py_strip a) = ''yes'')"

datatype cs_answer = Trainee_types string | Evaluator_says string "cs_feedback option" | Customer_says string

fun pop_trainee :: "cs_answer list \<Rightarrow> error + (string \<times> cs_answer list)" where
  "pop_trainee (Trainee_types u # as) = Inr (u, as)"
| "pop_trainee _ = Inl EOFError"

fun pop_evaluator :: "cs_answer list \<Rightarrow> error + ((string \<times> cs_feedback option) \<times> cs_answer list)" where
  "pop_evaluator (Evaluator_says c p # as) = Inr ((c, p), as)"
| "pop_evaluator _ = Inl LLM_failure"

fun pop_customer :: "cs_answer list \<Rightarrow> error + (string \<times> cs_answer list)" where
  "pop_customer (Customer_says r # as) = Inr (r, as)"
| "pop_customer _ = Inl LLM_failure"

text \<open>
  One round of the \<open>while True\<close> loop, lines 19--43: read the trainee's reply, log it,
  evaluate; print \<open>feedback["feedback"]\<close> (raising when absent); stop on
  \<open>complete\<close>; on \<open>passed\<close> let the customer answer; then let the customer answer
  again, unconditionally. \<open>None\<close> is a loop that has not ended within the fuel.
\<close>

fun customer_loop :: "nat \<Rightarrow> chat \<Rightarrow> cs_answer list \<Rightarrow> (error + (chat \<times> cs_answer list)) option" where
  "customer_loop 0 h as = None"
| "customer_loop (Suc k) h as =
     (case pop_trainee as of
        Inl e \<Rightarrow> Some (Inl e)
      | Inr (u, as1) \<Rightarrow>
          (let h1 = h @ [(''assistant'', u)] in
           case pop_evaluator as1 of
             Inl e \<Rightarrow> Some (Inl e)
           | Inr ((c, p), as2) \<Rightarrow>
               (let fb = evaluate_customer_response c p in
                case fb_text fb of
                  None \<Rightarrow> Some (Inl KeyError)
                | Some _ \<Rightarrow>
                    (if flag (fb_complete fb) then Some (Inr (h1, as2))
                     else
                       (case (if flag (fb_passed fb)
                              then map_sum id (\<lambda>(r, as3). (h1 @ [(''user'', r)], as3)) (pop_customer as2)
                              else Inr (h1, as2)) of
                          Inl e \<Rightarrow> Some (Inl e)
                        | Inr (h2, as3) \<Rightarrow>
                            (case pop_customer as3 of
                               Inl e \<Rightarrow> Some (Inl e)
                             | Inr (r, as4) \<Rightarrow> customer_loop k (h2 @ [(''user'', r)]) as4))))))"

definition initial_customer :: string where
  "initial_customer = ''Hello, I need to return my order. Can you help?''"

text \<open>
  \<open>simulate_customer_interaction\<close>, lines 11--45: the history starts with the
  customer's opening line; one round per answer plus one is fuel enough, since every
  round reads a console line.
\<close>

definition simulate_customer_interaction :: "cs_answer list \<Rightarrow> (error + (chat \<times> cs_answer list)) option" where
  "simulate_customer_interaction as = customer_loop (Suc (length as)) [(''user'', initial_customer)] as"

text \<open>
  \<open>create_graph\<close> and the entry point of \<open>training_simulation.py\<close> (lines 47--65):
  a one-node graph over a plain \<open>dict\<close> whose node returns the state it was given;
  after the invocation the program prints its success line (the check mark written as
  its UTF-8 bytes). An exception of the loop propagates and nothing is printed.
\<close>

definition customer_graph_invoke :: "'s \<Rightarrow> cs_answer list \<Rightarrow> (error + ('s \<times> cs_answer list)) option" where
  "customer_graph_invoke st as =
     map_option (map_sum id (\<lambda>(h, as'). (st, as'))) (simulate_customer_interaction as)"

definition passed_banner :: string where
  "passed_banner = ''\<newline>'' @ map char_of [0xE2 :: nat, 0x9C, 0x85] @ '' Customer simulation passed.''"

definition customer_main :: "cs_answer list \<Rightarrow> (error + string) option" where
  "customer_main as =
     map_option (map_sum id (\<lambda>_. passed_banner)) (customer_graph_invoke ''Handle missing order inquiry.'' as)"

section \<open>Lemmas\<close>

lemma pop_trainee_Inr: "pop_trainee as = Inr (u, as') \<Longrightarrow> as = Trainee_types u # as'"
  by (cases as rule: pop_trainee.cases) auto


lemma customer_loop_enough_fuel:
  "length as < k \<Longrightarrow> customer_loop k h as \<noteq> None"
proof (induction k arbitrary: h as)
  case 0
  then show ?case by simp
next
  case (Suc k)
  show ?case
  proof (cases "pop_trainee as")
    case (Inl e)
    then show ?thesis by simp
  next
    case (Inr x)
    then obtain u as1 where p: "pop_trainee as = Inr (u, as1)" by (cases x) auto
    then have l: "length as1 < Suc k \<and> length as1 \<le> k"
      using Suc.prems by (auto dest!: pop_trainee_Inr)
    show ?thesis
      using p l Suc.IH
      by (auto simp: Let_def split: sum.splits prod.splits option.splits if_splits
               elim!: pop_evaluator.elims pop_customer.elims)
  qed
qed

lemma customer_round_cases:
  assumes "customer_loop (Suc k) h as = Some (Inr (h', as'))"
  shows "(\<exists>u. h' = h @ [(''assistant'', u)]) \<or>
         (\<exists>h2 r as4. prefix h h2 \<and> customer_loop k (h2 @ [(''user'', r)]) as4 = Some (Inr (h', as')))"
proof -
  from assms obtain u as1 where p1: "pop_trainee as = Inr (u, as1)"
    by (auto split: sum.splits)
  from assms p1 obtain c p as2 where p2: "pop_evaluator as1 = Inr ((c, p), as2)"
    by (auto simp: Let_def split: sum.splits)
  let ?h1 = "h @ [(''assistant'', u)]"
  let ?fb = "evaluate_customer_response c p"
  show ?thesis
  proof (cases "flag (fb_complete ?fb)")
    case True
    with assms p1 p2 have "h' = ?h1" by (auto simp: Let_def split: option.splits)
    then show ?thesis by blast
  next
    case False
    show ?thesis
    proof (cases "flag (fb_passed ?fb)")
      case True
      with False assms p1 p2 obtain r1 as3 r as4 where
        "pop_customer as2 = Inr (r1, as3)" "pop_customer as3 = Inr (r, as4)"
        "customer_loop k ((?h1 @ [(''user'', r1)]) @ [(''user'', r)]) as4 = Some (Inr (h', as'))"
        by (auto simp: Let_def split: option.splits sum.splits prod.splits
                 dest!: map_sum_Inr_exists)
      moreover have "prefix h (?h1 @ [(''user'', r1)])" by (simp add: prefix_def)
      ultimately show ?thesis by blast
    next
      case passed: False
      with False assms p1 p2 obtain r as4 where
        "pop_customer as2 = Inr (r, as4)"
        "customer_loop k (?h1 @ [(''user'', r)]) as4 = Some (Inr (h', as'))"
        by (auto simp: Let_def split: option.splits sum.splits prod.splits)
      moreover have "prefix h ?h1" by simp
      ultimately show ?thesis by blast
    qed
  qed
qed

lemma customer_loop_result_aux:
  "customer_loop k h as = Some (Inr (h', as')) \<Longrightarrow>
     prefix h h' \<and> (\<exists>u. last h' = (''assistant'', u))"
proof (induction k arbitrary: h as)
  case 0
  then show ?case by simp
next
  case (Suc k)
  from customer_round_cases [OF Suc.prems] show ?case
  proof
    assume "\<exists>u. h' = h @ [(''assistant'', u)]"
    then show ?thesis by auto
  next
    assume "\<exists>h2 r as4. prefix h h2 \<and> customer_loop k (h2 @ [(''user'', r)]) as4 = Some (Inr (h', as'))"
    then obtain h2 r as4 where "prefix h h2"
      and "customer_loop k (h2 @ [(''user'', r)]) as4 = Some (Inr (h', as'))" by blast
    with Suc.IH show ?thesis
      by (meson prefix_order.trans prefix_append_right)
  qed
qed

section \<open>Properties\<close>

text \<open>
  C24. The evaluator's fallbacks never pass the trainee: an empty reply of the model or
  one that is not JSON gives \<open>passed = False\<close>, no \<open>complete\<close>, and a feedback
  text, so the loop neither advances the customer nor ends.
\<close>

theorem evaluate_fallback_fails:
  assumes "reply = [] \<or> parsed = None"
  shows "fb_passed (evaluate_customer_response reply parsed) = Some False \<and>
         \<not> flag (fb_complete (evaluate_customer_response reply parsed)) \<and>
         fb_text (evaluate_customer_response reply parsed) \<noteq> None"
  using assms by (auto simp: evaluate_customer_response_def flag_def)

theorem evaluate_fallback_fails_witness:
  "fb_passed (evaluate_customer_response ''Sure! Here is my evaluation'' None) = Some False"
  using evaluate_fallback_fails [of "''Sure! Here is my evaluation''" None] by simp

text \<open>
  C25. After an evaluation that passes the trainee without completing, the customer
  speaks twice in a row: \<open>get_customer_reply\<close> is called in the \<open>passed\<close> branch
  and again unconditionally after it, so the history gains the trainee's reply and two
  customer messages.
\<close>

theorem passed_round_customer_speaks_twice:
  assumes "fb_text (evaluate_customer_response c p) \<noteq> None"
    and "\<not> flag (fb_complete (evaluate_customer_response c p))"
    and "flag (fb_passed (evaluate_customer_response c p))"
  shows "customer_loop (Suc k) h (Trainee_types u # Evaluator_says c p # Customer_says r1 # Customer_says r2 # as) =
         customer_loop k (h @ [(''assistant'', u), (''user'', r1), (''user'', r2)]) as"
  using assms by (auto simp: Let_def)

theorem passed_round_customer_speaks_twice_witness:
  "customer_loop 2 [(''user'', initial_customer)]
     [Trainee_types ''Sorry to hear that, what is your order number?'',
      Evaluator_says ''{}'' (Some \<lparr>fb_passed = Some True, fb_complete = None, fb_text = Some ''good'', fb_step = None\<rparr>),
      Customer_says ''It is 1234.'', Customer_says ''Did you get it?''] =
   customer_loop 1 [(''user'', initial_customer), (''assistant'', ''Sorry to hear that, what is your order number?''),
      (''user'', ''It is 1234.''), (''user'', ''Did you get it?'')] []"
proof -
  let ?f = "\<lparr>fb_passed = Some True, fb_complete = None, fb_text = Some ''good'', fb_step = None\<rparr>"
  have a: "fb_text (evaluate_customer_response ''{}'' (Some ?f)) \<noteq> None"
    "\<not> flag (fb_complete (evaluate_customer_response ''{}'' (Some ?f)))"
    "flag (fb_passed (evaluate_customer_response ''{}'' (Some ?f)))"
    by (simp_all add: evaluate_customer_response_def flag_def)
  from passed_round_customer_speaks_twice [OF a, of 1 "[(''user'', initial_customer)]"
      "''Sorry to hear that, what is your order number?''" "''It is 1234.''" "''Did you get it?''" "[]"]
  show ?thesis by (simp add: numeral_eq_Suc)
qed

text \<open>
  C26. When the loop ends normally it is because the evaluator said \<open>complete\<close>
  right after a reply of the trainee: the returned history extends the one it started
  from and ends with the trainee's message.
\<close>

theorem customer_loop_ends_on_trainee:
  assumes "customer_loop k h as = Some (Inr (h', as'))"
  shows "prefix h h' \<and> (\<exists>u. last h' = (''assistant'', u))"
  using assms by (rule customer_loop_result_aux)

theorem customer_loop_ends_on_trainee_witness:
  "customer_loop 1 [] [Trainee_types ''Your refund is done.'',
      Evaluator_says ''{}'' (Some \<lparr>fb_passed = Some True, fb_complete = Some True, fb_text = Some ''all done'', fb_step = None\<rparr>)] =
     Some (Inr ([(''assistant'', ''Your refund is done.'')], [])) \<and>
   last [(''assistant'', ''Your refund is done.'')] = (''assistant'', ''Your refund is done.'')"
proof -
  have r: "customer_loop 1 [] [Trainee_types ''Your refund is done.'',
      Evaluator_says ''{}'' (Some \<lparr>fb_passed = Some True, fb_complete = Some True, fb_text = Some ''all done'', fb_step = None\<rparr>)] =
     Some (Inr ([(''assistant'', ''Your refund is done.'')], []))"
    by (simp add: evaluate_customer_response_def flag_def)
  from customer_loop_ends_on_trainee [OF r] r show ?thesis by simp
qed


end
