(* ===== verification/Research.thy ===== *)
theory Research
  imports Session
begin

text \<open>
  The research-summarisation flow: \<open>src/agentic_research_ai.py\<close> (the nodes
  \<open>retrieve_chunks\<close> and \<open>summarize\<close>, the two-node graph of
  \<open>create_graph\<close> and the entry point), \<open>ResearchTools.search_vector_db\<close> of
  \<open>src/tools.py\<close>, and \<open>get_embedding\<close> and \<open>summarize_chunks\<close> of
  \<open>src/llm.py\<close>. The embedding model, the vector store and the chat model are
  parameters: \<open>enc\<close> maps a text to its vector, \<open>ranked\<close> lists the stored
  payloads of a query vector best first, and \<open>chat\<close> maps a prompt to the
  model's reply. Qdrant's \<open>search(limit = k)\<close> returns the first \<open>k\<close> of that
  ranking (its documented contract). The graph's state is a plain \<open>dict\<close>
  (\<open>StateGraph(dict)\<close>: each node returns the whole dictionary, which replaces the
  state); a key not yet written is \<open>None\<close> here.
\<close>

section \<open>Definitions\<close>

text \<open>A payload of the vector store: a JSON object, read here by its text fields.\<close>

type_synonym payload = "string \<rightharpoonup> string"

record research_state =
  query :: string
  retrieved_chunks :: "payload list option"
  summary :: "string option"

text \<open>
  \<open>get_embedding(texts)\<close>, llm.py lines 13--18: a single string is wrapped in a
  list, and the model encodes each text.
\<close>

definition get_embedding :: "(string \<Rightarrow> 'v) \<Rightarrow> string + string list \<Rightarrow> 'v list" where
  "get_embedding enc texts = map enc (case texts of Inl t \<Rightarrow> [t] | Inr ts \<Rightarrow> ts)"

definition qdrant_search :: "('v \<Rightarrow> payload list) \<Rightarrow> 'v \<Rightarrow> nat \<Rightarrow> payload list" where
  "qdrant_search ranked v limit = take limit (ranked v)"

text \<open>
  \<open>search_vector_db(query, top_k)\<close>, tools.py lines 62--72: embed the query, take
  the first vector (\<open>[0]\<close>), search, and keep the payloads.
\<close>

definition search_vector_db ::
  "(string \<Rightarrow> 'v) \<Rightarrow> ('v \<Rightarrow> payload list) \<Rightarrow> string \<Rightarrow> nat \<Rightarrow> error + payload list" where
  "search_vector_db enc ranked q top_k =
     (case get_embedding enc (Inl q) of
        [] \<Rightarrow> Inl IndexError
      | v # _ \<Rightarrow> Inr (qdrant_search ranked v top_k))"

text \<open>
  \<open>ResearchTools.search_graph(cypher_query)\<close>, tools.py lines 25--28: the Neo4j
  session runs the query (\<open>run\<close>, an oracle giving the result records) and each
  record is turned into a dictionary (\<open>data\<close>); the session is closed on the way
  out. The flow never calls it.
\<close>

definition search_graph :: "(string \<Rightarrow> 'r list) \<Rightarrow> ('r \<Rightarrow> 'd) \<Rightarrow> string \<Rightarrow> 'd list" where
  "search_graph run data cypher_query = map data (run cypher_query)"

text \<open>
  The generator \<open>chunk["text"] for chunk in chunks\<close> of \<open>summarize_chunks\<close>
  (llm.py line 26): the first chunk without a \<open>text\<close> key raises.
\<close>

fun chunk_texts :: "payload list \<Rightarrow> error + string list" where
  "chunk_texts [] = Inr []"
| "chunk_texts (c # cs) =
     (case c ''text'' of
        None \<Rightarrow> Inl KeyError
      | Some t \<Rightarrow> map_sum id (Cons t) (chunk_texts cs))"

text \<open>The prompt of \<open>summarize_chunks\<close>, llm.py lines 27--35.\<close>

definition summary_prompt :: "string \<Rightarrow> string" where
  "summary_prompt context =
     ''\<newline>You are an assistant reviewing customer service emails. '' @
     ''The following are snippets of good responses to customers.\<newline>\<newline>'' @
     ''Please extract the best 3 examples and explain why they are good.\<newline>\<newline>'' @
     ''--- BEGIN TEXT ---\<newline>'' @ context @ ''\<newline>--- END TEXT ---\<newline>''"

text \<open>
  \<open>summarize_chunks(chunks)\<close>, llm.py lines 25--37: join the texts with a blank
  line between them and ask the chat model once.
\<close>

definition summarize_chunks :: "(string \<Rightarrow> string) \<Rightarrow> payload list \<Rightarrow> error + string" where
  "summarize_chunks chat chunks =
     (case chunk_texts chunks of
        Inl e \<Rightarrow> Inl e
      | Inr ts \<Rightarrow> Inr (chat (summary_prompt (py_join ''\<newline>\<newline>'' ts))))"

text \<open>The node \<open>retrieve_chunks\<close>, agentic_research_ai.py lines 13--16.\<close>

definition retrieve_chunks ::
  "(string \<Rightarrow> 'v) \<Rightarrow> ('v \<Rightarrow> payload list) \<Rightarrow> research_state \<Rightarrow> error + research_state" where
  "retrieve_chunks enc ranked s =
     map_sum id (\<lambda>rs. s\<lparr>retrieved_chunks := Some rs\<rparr>) (search_vector_db enc ranked (query s) 10)"

text \<open>The node \<open>summarize\<close>, lines 18--20: \<open>state["retrieved_chunks"]\<close> raises when absent.\<close>

definition summarize :: "(string \<Rightarrow> string) \<Rightarrow> research_state \<Rightarrow> error + research_state" where
  "summarize chat s =
     (case retrieved_chunks s of
        None \<Rightarrow> Inl KeyError
      | Some cs \<Rightarrow> map_sum id (\<lambda>t. s\<lparr>summary := Some t\<rparr>) (summarize_chunks chat cs))"

text \<open>The graph of \<open>create_graph\<close>, lines 23--33: entry, one edge, then \<open>END\<close>.\<close>

datatype research_node = Retrieve_chunks | Summarize | Research_END

fun research_edge :: "research_node \<Rightarrow> research_node" where
  "research_edge Retrieve_chunks = Summarize"
| "research_edge Summarize = Research_END"
| "research_edge Research_END = Research_END"

fun research_run_node ::
  "(string \<Rightarrow> 'v) \<Rightarrow> ('v \<Rightarrow> payload list) \<Rightarrow> (string \<Rightarrow> string) \<Rightarrow> research_node \<Rightarrow>
     research_state \<Rightarrow> error + research_state" where
  "research_run_node enc ranked chat Retrieve_chunks s = retrieve_chunks enc ranked s"
| "research_run_node enc ranked chat Summarize s = summarize chat s"
| "research_run_node enc ranked chat Research_END s = Inr s"

text \<open>
  \<open>graph.invoke\<close> with a budget of node runs, as for the simulation graph; the budget
  spent is \<open>GraphRecursionError\<close>.
\<close>

fun research_invoke ::
  "nat \<Rightarrow> (string \<Rightarrow> 'v) \<Rightarrow> ('v \<Rightarrow> payload list) \<Rightarrow> (string \<Rightarrow> string) \<Rightarrow> research_node \<Rightarrow>
     research_state \<Rightarrow> error + research_state" where
  "research_invoke k enc ranked chat Research_END s = Inr s"
| "research_invoke 0 enc ranked chat n s = Inl GraphRecursionError"
| "research_invoke (Suc k) enc ranked chat n s =
     (case research_run_node enc ranked chat n s of
        Inl e \<Rightarrow> Inl e
      | Inr s' \<Rightarrow> research_invoke k enc ranked chat (research_edge n) s')"

text \<open>
  The entry point, lines 36--47: invoke from \<open>{"query": q}\<close> with LangGraph's default
  budget of 25 and print \<open>final_state["summary"]\<close>.
\<close>

definition research_main ::
  "(string \<Rightarrow> 'v) \<Rightarrow> ('v \<Rightarrow> payload list) \<Rightarrow> (string \<Rightarrow> string) \<Rightarrow> string \<Rightarrow> error + string" where
  "research_main enc ranked chat q =
     (case research_invoke 25 enc ranked chat Retrieve_chunks
             \<lparr>query = q, retrieved_chunks = None, summary = None\<rparr> of
        Inl e \<Rightarrow> Inl e
      | Inr s \<Rightarrow> (case summary s of None \<Rightarrow> Inl KeyError | Some t \<Rightarrow> Inr t))"

section \<open>Lemmas\<close>

lemma search_vector_db_Inr [simp]:
  "search_vector_db enc ranked q k = Inr (take k (ranked (enc q)))"
  by (simp add: search_vector_db_def get_embedding_def qdrant_search_def)

lemma chunk_texts_Inl: "chunk_texts cs = Inl e \<longleftrightarrow> e = KeyError \<and> (\<exists>c\<in>set cs. c ''text'' = None)"
  by (induction cs) (auto split: option.splits)

lemma chunk_texts_Inr_text: "chunk_texts cs = Inr ts \<Longrightarrow> c \<in> set cs \<Longrightarrow> c ''text'' \<noteq> None"
  by (induction cs arbitrary: ts) (auto split: option.splits dest!: map_sum_Inr_exists)

lemma research_invoke_run:
  assumes "2 \<le> k"
  shows "research_invoke k enc ranked chat Retrieve_chunks s =
     (case retrieve_chunks enc ranked s of Inl e \<Rightarrow> Inl e | Inr s1 \<Rightarrow> summarize chat s1)"
proof -
  from le_Suc_ex [OF assms] obtain j where "k = Suc (Suc j)" by (metis add_2_eq_Suc)
  then show ?thesis by (auto split: sum.splits)
qed

section \<open>Properties\<close>

text \<open>
  C28. The research flow end to end: it embeds the query, keeps the ten best payloads
  of the store, joins their texts with a blank line and prints the chat model's answer
  to the summary prompt on that context; it raises only what collecting the texts
  raises.
\<close>

theorem research_main_result:
  "research_main enc ranked chat q =
     map_sum id (\<lambda>ts. chat (summary_prompt (py_join ''\<newline>\<newline>'' ts)))
       (chunk_texts (take 10 (ranked (enc q))))"
  by (simp add: research_main_def research_invoke_run retrieve_chunks_def summarize_def
                summarize_chunks_def split: sum.splits)

text \<open>
  C29. The flow fails exactly when one of the ten retrieved payloads has no
  \<open>text\<close> field, and then with \<open>KeyError\<close>: the embedding's \<open>[0]\<close>, the
  graph budget and the final \<open>final_state["summary"]\<close> never raise.
\<close>

theorem research_missing_text_raises:
  "research_main enc ranked chat q = Inl e \<longleftrightarrow>
     e = KeyError \<and> (\<exists>c\<in>set (take 10 (ranked (enc q))). c ''text'' = None)"
  by (auto simp: research_main_def research_invoke_run retrieve_chunks_def summarize_def
                 summarize_chunks_def chunk_texts_Inl dest: chunk_texts_Inr_text split: sum.splits)

end
