(* ===== verification/Drivers.thy ===== *)
theory Drivers
  imports Session
begin

text \<open>
  The database configuration of \<open>src/drivers.py\<close> and the Neptune status check of
  \<open>src/neptune_test.py\<close>. The process environment and the \<open>.env\<close> file are maps
  from variable names to values; \<open>load_dotenv()\<close> adds the file's variables without
  overriding those already set. Python's \<open>int(s)\<close> on a string is the parser
  \<open>py_int\<close>; the client constructors only store what they are given. The HTTP
  request of the status check is an oracle returning a connection failure or a reply
  (status code, reason phrase, and the body parsed as JSON or the decoder's message).
\<close>

section \<open>Definitions\<close>

subsection \<open>Python's \<open>int(s)\<close>\<close>

definition is_digit :: "char \<Rightarrow> bool" where
  "is_digit c = (let n = (of_char c :: nat) in 48 \<le> n \<and> n \<le> 57)"

text \<open>
  The digits of a decimal literal: digits, with single underscores between them
  (\<open>int("1_000")\<close> is 1000; a leading, trailing or doubled underscore is an error).
\<close>

fun ok_digits :: "string \<Rightarrow> bool" where
  "ok_digits [] = False"
| "ok_digits [c] = is_digit c"
| "ok_digits (c # d # r) = (is_digit c \<and> (if d = CHR ''_'' then ok_digits r else ok_digits (d # r)))"

definition digits_nat :: "string \<Rightarrow> nat" where
  "digits_nat ds = foldl (\<lambda>n c. 10 * n + (of_char c - 48)) 0 (filter is_digit ds)"

text \<open>
  \<open>int(s)\<close>: surrounding whitespace is ignored, one sign is allowed, leading zeros
  are allowed; anything else raises \<open>ValueError\<close>. (Non-ASCII digits, which Python
  also accepts, are outside the byte strings of this model.)
\<close>

definition py_int :: "string \<Rightarrow> error + int" where
  "py_int s =
     (let t = py_strip s in
      case t of
        [] \<Rightarrow> Inl ValueError
      | c # r \<Rightarrow>
          (if c = CHR ''-'' then (if ok_digits r then Inr (- int (digits_nat r)) else Inl ValueError)
           else if c = CHR ''+'' then (if ok_digits r then Inr (int (digits_nat r)) else Inl ValueError)
           else if ok_digits t then Inr (int (digits_nat t)) else Inl ValueError))"

subsection \<open>\<open>drivers.py\<close>\<close>

type_synonym environ = "string \<rightharpoonup> string"

text \<open>\<open>os.getenv(k, default)\<close>.\<close>

definition getenv :: "environ \<Rightarrow> string \<Rightarrow> string \<Rightarrow> string" where
  "getenv env k d = (case env k of Some v \<Rightarrow> v | None \<Rightarrow> d)"

text \<open>\<open>load_dotenv()\<close> (line 9): the file's variables, where the environment has none.\<close>

definition load_dotenv :: "environ \<Rightarrow> environ \<Rightarrow> environ" where
  "load_dotenv dotenv env = dotenv ++ env"

text \<open>What the two clients are built from (lines 12--24).\<close>

record driver_config =
  qdrant_host :: string
  qdrant_port :: int
  neo4j_uri :: string
  neo4j_auth :: "string \<times> string"

definition drivers_setup :: "environ \<Rightarrow> environ \<Rightarrow> error + driver_config" where
  "drivers_setup dotenv env0 =
     (let env = load_dotenv dotenv env0 in
      map_sum id
        (\<lambda>port. \<lparr>qdrant_host = getenv env ''QDRANT_HOST'' ''localhost'', qdrant_port = port,
                 neo4j_uri = getenv env ''NEO4J_URI'' ''bolt://localhost:7687'',
                 neo4j_auth = (getenv env ''NEO4J_USER'' ''neo4j'',
                               getenv env ''NEO4J_PASSWORD'' ''neo4j'')\<rparr>)
        (py_int (getenv env ''QDRANT_PORT'' ''6333'')))"

subsection \<open>\<open>neptune_test.py\<close>\<close>

text \<open>
  The host is assigned twice (lines 4--5); the second assignment is the one used. The
  URL is built on line 9.
\<close>

definition NEPTUNE_HOST :: string where
  "NEPTUNE_HOST = ''db-dev-neptune-1-instance-1.cd0iemc4ay88.us-east-2.neptune.amazonaws.com''"

definition status_url :: string where
  "status_url = ''https://'' @ NEPTUNE_HOST @ '':'' @ py_str_nat 8182 @ ''/status''"

datatype http_reply =
    Request_failed string
  | Http_reply nat string "string + string"

text \<open>
  The text of the \<open>HTTPError\<close> that \<open>raise_for_status()\<close> raises on a 4xx or 5xx
  reply (the library's message format).
\<close>

definition http_error_text :: "nat \<Rightarrow> string \<Rightarrow> string \<Rightarrow> string" where
  "http_error_text code reason url =
     py_str_nat code @ (if code < 500 then '' Client Error: '' else '' Server Error: '') @
     reason @ '' for url: '' @ url"

definition status_ok_banner :: string where
  "status_ok_banner = map char_of [0xE2 :: nat, 0x9C, 0x85] @ '' Neptune status:''"

definition status_error_banner :: string where
  "status_error_banner = map char_of [0xE2 :: nat, 0x9D, 0x8C] @ '' Error connecting to Neptune:''"

text \<open>
  \<open>check_status()\<close>, lines 8--17, as the lines it prints. Every failure of the
  request, of \<open>raise_for_status()\<close> and of \<open>response.json()\<close> is a
  \<open>RequestException\<close> and is caught; the JSON failure comes after the status banner
  has been printed.
\<close>

definition check_status :: "(string \<Rightarrow> http_reply) \<Rightarrow> string list" where
  "check_status get =
     (case get status_url of
        Request_failed msg \<Rightarrow> [status_error_banner, msg]
      | Http_reply code reason body \<Rightarrow>
          (if 400 \<le> code \<and> code < 600 then
             [status_error_banner, http_error_text code reason status_url]
           else
             (case body of
                Inr j \<Rightarrow> [status_ok_banner, j]
              | Inl msg \<Rightarrow> [status_ok_banner, status_error_banner, msg])))"

section \<open>Lemmas\<close>

lemma is_digit_char_of: "(d :: nat) < 10 \<Longrightarrow> is_digit (char_of (48 + d))"
  by (simp add: is_digit_def of_char_of)

lemma of_char_digit: "d < 10 \<Longrightarrow> of_char (char_of (48 + d) :: char) - 48 = (d :: nat)"
  by simp

lemma py_str_nat_digits: "py_str_nat n \<noteq> [] \<and> list_all is_digit (py_str_nat n)"
proof (induction n rule: py_str_nat.induct)
  case (1 n)
  then show ?case
    by (cases "n < 10") (subst py_str_nat.simps, simp add: is_digit_char_of)+
qed

lemma digits_nat_snoc:
  "is_digit c \<Longrightarrow> digits_nat (ds @ [c]) = 10 * digits_nat ds + (of_char c - 48)"
  by (simp add: digits_nat_def)

lemma digits_nat_py_str_nat: "digits_nat (py_str_nat n) = n"
proof (induction n rule: py_str_nat.induct)
  case (1 n)
  show ?case
  proof (cases "n < 10")
    case True
    then show ?thesis
      by (subst py_str_nat.simps) (simp add: digits_nat_def is_digit_char_of of_char_digit)
  next
    case False
    then have "digits_nat (py_str_nat (n div 10)) = n div 10" using 1 by simp
    with False show ?thesis
      by (subst py_str_nat.simps) (simp add: digits_nat_snoc is_digit_char_of of_char_digit)
  qed
qed

lemma ok_digits_all: "xs \<noteq> [] \<Longrightarrow> list_all is_digit xs \<Longrightarrow> ok_digits xs"
  by (induction xs rule: ok_digits.induct) (auto simp: is_digit_def)

lemma is_digit_not_space: "is_digit c \<Longrightarrow> \<not> is_py_space c"
  by (simp add: is_digit_def is_py_space_def Let_def)

lemma is_digit_not_sign: "is_digit c \<Longrightarrow> c \<noteq> CHR ''-'' \<and> c \<noteq> CHR ''+''"
  by (auto simp: is_digit_def)

lemma py_strip_no_space:
  assumes "xs \<noteq> []" "\<not> is_py_space (hd xs)" "\<not> is_py_space (last xs)"
  shows "py_strip xs = xs"
proof -
  from assms(1,2) have "dropWhile is_py_space xs = xs" by (cases xs) auto
  moreover from assms(1,3) have "dropWhile is_py_space (rev xs) = rev xs"
    by (cases "rev xs") (auto simp: last_rev [symmetric])
  ultimately show ?thesis by (simp add: py_strip_def)
qed

lemma py_int_py_str_nat: "py_int (py_str_nat n) = Inr (int n)"
proof -
  obtain c r where cr: "py_str_nat n = c # r" and d: "list_all is_digit (c # r)"
    using py_str_nat_digits [of n] by (cases "py_str_nat n") auto
  have "py_strip (c # r) = c # r"
    using d by (intro py_strip_no_space) (auto simp: is_digit_not_space list_all_iff)
  with cr d show ?thesis
    using digits_nat_py_str_nat [of n] ok_digits_all [of "c # r"] is_digit_not_sign [of c]
    by (simp add: py_int_def)
qed

lemma py_int_neg: "py_int (CHR ''-'' # py_str_nat n) = Inr (- int n)"
proof -
  obtain c r where cr: "py_str_nat n = c # r" and d: "list_all is_digit (c # r)"
    using py_str_nat_digits [of n] by (cases "py_str_nat n") auto
  have "last (CHR ''-'' # c # r) \<in> set (c # r)" by simp
  then have "\<not> is_py_space (last (CHR ''-'' # c # r))"
    using d by (auto simp: is_digit_not_space list_all_iff simp del: last.simps)
  then have "py_strip (CHR ''-'' # c # r) = CHR ''-'' # c # r"
    by (intro py_strip_no_space) (simp_all add: is_py_space_def)
  with cr d show ?thesis
    using digits_nat_py_str_nat [of n] ok_digits_all [of "c # r"]
    by (simp add: py_int_def)
qed

lemma py_int_py_str_int: "py_int (py_str_int i) = Inr i"
  by (simp add: py_str_int_def py_int_neg py_int_py_str_nat)

lemma py_int_Inl: "py_int s = Inl e \<Longrightarrow> e = ValueError"
  by (auto simp: py_int_def Let_def split: list.splits if_splits)

lemma drivers_setup_Inl:
  "drivers_setup dotenv env = Inl e \<longleftrightarrow>
     e = ValueError \<and> py_int (getenv (load_dotenv dotenv env) ''QDRANT_PORT'' ''6333'') = Inl ValueError"
  by (auto simp: drivers_setup_def Let_def dest: py_int_Inl)

lemma drivers_setup_defaults:
  "drivers_setup Map.empty Map.empty =
     Inr \<lparr>qdrant_host = ''localhost'', qdrant_port = 6333, neo4j_uri = ''bolt://localhost:7687'',
          neo4j_auth = (''neo4j'', ''neo4j'')\<rparr>"
  by code_simp

lemma check_status_reports_status:
  "hd (check_status get) = status_ok_banner \<longleftrightarrow>
     (\<exists>code reason body. get status_url = Http_reply code reason body \<and> \<not> (400 \<le> code \<and> code < 600))"
  by (auto simp: check_status_def status_ok_banner_def status_error_banner_def
           split: http_reply.splits sum.splits)

end
