(* ===== verification/Spec2Isabelle.thy ===== *)
theory Spec2Isabelle
  imports Graph CustomerSim Research Drivers
begin

text \<open>
  \<^bold>\<open>A verification model of the referee training pipeline of llm_sop_simulation.\<close>

  \<^medskip>
  \<^bold>\<open>The program.\<close> \<open>src/langchain_referee.py\<close> trains a person through an
  ordered procedure (an SOP of six steps). A LangGraph \<open>StateGraph\<close> over one state
  dictionary (\<open>StateDict\<close>) runs five nodes in a fixed cycle: \<open>coach_node\<close>
  (a chat model plays the coach), \<open>user_node\<close> (the trainee types a reply),
  \<open>grader_node\<close> (a chat model grades the reply against the step's rubric, or answers
  a direct question \<open>"Grader: ..."\<close> without grading), \<open>referee_node\<close> (a chat model
  audits the grader's verdict) and \<open>orchestrator_node\<close> (the consensus resolver: it
  advances only when the grader passed and the referee agreed, lets the trainee retry on
  a confirmed fail, counts a retry on a disagreement and raises \<open>RuntimeError\<close> on the
  second consecutive one). Each node skips itself unless \<open>next_node\<close> names it; the
  orchestrator routes through conditional edges to the coach, the user or \<open>END\<close>.
  \<open>run_simulation\<close> loads the steps into the global \<open>SOP_STEPS\<close> and calls
  \<open>simulation.invoke\<close> until \<open>done\<close>. The other files (\<open>agentic_research_ai.py\<close>,
  \<open>training_simulation.py\<close>, \<open>llm.py\<close>, \<open>tools.py\<close>, \<open>drivers.py\<close>,
  \<open>neptune_test.py\<close>) are a retrieval/summarisation flow and database clients, except
  \<open>training_simulation.py\<close>: a second, simpler trainer in which the trainee answers a
  simulated customer and one chat model (\<open>evaluate_customer_response\<close> in
  \<open>llm.py\<close>) judges every reply, until it says the procedure is complete.

  \<^medskip>
  \<^bold>\<open>Theories.\<close>
  \<^item> \<open>Prelude\<close>: Python's \<open>startswith\<close>, \<open>lower\<close>, \<open>capitalize\<close>,
    \<open>strip\<close>, \<open>join\<close> and \<open>str\<close> of a number on byte strings, and the
    evaluation of a list comprehension whose items may raise (\<open>sequence_sum\<close>);
    generic lemmas on sums, joins and list prefixes; the fact collections
    \<open>node_defs\<close> (node unfoldings) and \<open>node_frames\<close> (frame rules).
  \<^item> \<open>Session\<close>: the data. \<open>StateDict\<close> is the record \<open>state\<close> (field for
    field; \<open>done\<close> is \<open>done_flag\<close>). What \<open>JsonOutputParser\<close> returns is the
    datatype \<open>'r json\<close>: an object with the schema's keys (the records
    \<open>grader_json\<close>, \<open>referee_json\<close>), the empty object, or any other JSON value
    with its truthiness; \<open>truthy\<close> and \<open>subscript\<close> are Python's \<open>if x:\<close> and
    \<open>x[key]\<close> on a stored value. Transcript entries are the datatype \<open>entry\<close> (a
    message, a grader dictionary, or Python's \<open>None\<close>), node names the datatype
    \<open>node\<close>. \<open>SOP_STEPS\<close> is a map \<open>catalog\<close> built by \<open>load_steps\<close>
    (which prints each description as it stores the step); a step's rubric and
    description are keys read with \<open>.get\<close> (\<open>'a jfield\<close>: missing, \<open>null\<close> or a
    value); \<open>get_sop_step_description\<close> and the raising subscript \<open>sop_index\<close>
    read the catalog. Exceptions are the datatype \<open>error\<close>, results are
    \<open>error + _\<close>. The chat models and the console are a list of \<open>answer\<close>s
    consumed in order; a missing console line is \<open>EOFError\<close>.
  \<^item> \<open>Nodes\<close>: \<open>coach_node\<close>, \<open>grader_node\<close>, \<open>referee_node\<close>,
    \<open>user_node\<close>, each a function of the catalog (where the node reads it), the state
    and the answers with every guard and early return of the source, and the frame
    lemmas (\<open>keeps_session\<close>).
  \<^item> \<open>Orchestrator\<close>: \<open>orchestrator_node\<close>; the design's decision table
    \<open>resolve\<close> on an abstract session \<open>consensus\<close> and the refinement
    \<open>orchestrator_refines_resolve\<close>; the session invariant \<open>wf_state\<close>; the
    behaviour of each branch.
  \<^item> \<open>Graph\<close>: the edges, \<open>run_node\<close>, \<open>invoke\<close> (an invocation with
    LangGraph's step budget), \<open>simulation_invoke\<close>, the feedback \<open>show_feedback\<close>,
    the driver \<open>drive\<close> and \<open>run_simulation\<close>, and the report printed after the
    loop (\<open>final_report\<close>, \<open>simulation_report\<close>); the reachable states
    \<open>reach\<close> as an inductive predicate, the invariant \<open>dialogue_inv\<close> over them,
    and the invariant, safety, routing, error, termination and liveness results (the
    latter with the answers \<open>passing_answers\<close>).
  \<^item> \<open>CustomerSim\<close>: \<open>evaluate_customer_response\<close> with its fallbacks,
    \<open>format_history_for_llm\<close> and the two prompts built from it, the yes/no
    test of \<open>is_reply_chunk\<close>, the loop of \<open>simulate_customer_interaction\<close>
    as \<open>customer_loop\<close> with fuel, and the one-node graph and entry point
    (\<open>customer_main\<close>).
  \<^item> \<open>Research\<close>: the retrieval flow of \<open>agentic_research_ai.py\<close> (nodes
    \<open>retrieve_chunks\<close> and \<open>summarize\<close>, the two-node graph as
    \<open>research_invoke\<close>, the entry point as \<open>research_main\<close>), with
    \<open>search_vector_db\<close> (tools.py) and \<open>get_embedding\<close> and
    \<open>summarize_chunks\<close> (llm.py); the embedding model, the vector store's ranking
    and the chat model are parameters.
  \<^item> \<open>Drivers\<close>: the configuration \<open>drivers.py\<close> builds from the environment
    and the \<open>.env\<close> file (\<open>drivers_setup\<close>, with Python's \<open>int(s)\<close> as the
    parser \<open>py_int\<close>, proved to invert \<open>str\<close>), and \<open>check_status\<close> of
    \<open>neptune_test.py\<close> as the lines it prints for each outcome of its HTTP request.
  \<^item> this theory: concrete sessions (\<open>demo_steps\<close>, \<open>paced_answers\<close>) and the
    properties of whole sessions (C11, C27).

  \<^medskip>
  \<^bold>\<open>What is proved.\<close> The orchestrator: each decision-table branch (C1--C3), its
  refinement of the design's table (C4), the retry bound (C14), the symmetric
  disagreement rows (C15), and the audit and verdict fields it ignores (C16, C17). The
  graph: the invariant over every reachable state (step in 1..6, retries below 2,
  completion only at step 6) with monotone step and append-only transcripts (C5); the
  step moves only on agreement on a pass (C6); \<open>run_simulation\<close> always ends (C7);
  interaction mode leaves the counters and the audit alone (C8); a confirmed fail logs
  the reply twice (C9); a re-grade asks the trainee for a new reply (C10); a finished
  session is complete (C11). What the replies of the chat models can do, since any JSON
  value is stored: a falsy verdict makes the orchestrator raise (C12), a truthy reply
  that is not an object makes it raise \<open>TypeError\<close> (C13), a falsy audit silently
  drops the verdict (C34); parse failures and missing catalog entries raise
  (C18--C20); the skip guards of the router (C21); loading the catalog raises on a
  \<open>null\<close> rubric and otherwise stores each step under its number (C22). The
  dialogue the coach reads: it always renders (C23), each user turn right after a
  coach turn (C31, by the invariant \<open>dialogue_inv\<close>), but it does not alternate
  as documented (C32). A session can always be completed: from every state between
  invocations, with the remaining steps ready in the catalog, some answers finish the
  driver loop with the session complete (C33, by symbolic execution of one invocation
  per step). A finished session reports its history, three printed lines per entry
  (C27). For the customer trainer: the evaluator's fallbacks never pass (C24), a
  passing round makes the customer speak twice (C25), the loop ends only right after
  a trainee reply judged complete (C26), and the transcript format lets a reply forge
  a customer line in both prompts (C30). For the retrieval flow: its result end to end
  (C28), and that it raises exactly on a payload without text, with \<open>KeyError\<close>
  (C29).

  \<^medskip>
  \<^bold>\<open>Bounds and fuel.\<close> \<open>invoke\<close> counts node runs; \<open>simulation.invoke\<close>
  passes no configuration, so the budget is LangGraph's default \<open>recursion_limit\<close>
  of 25 (a library constant, not in the repository). LangGraph counts supersteps; the
  graph's edges are a chain (each node has one successor), so every superstep runs one
  node and the two counts agree. \<open>drive\<close> has fuel for the \<open>while not done\<close>
  loop; \<open>run_simulation\<close> gives it one round per answer plus one, which is enough
  because every invocation reads a console line (\<open>run_simulation_total\<close>);
  \<open>customer_loop\<close> likewise gets one round per answer plus one.

  \<^medskip>
  \<^bold>\<open>Not modelled.\<close> The prompt texts of the referee pipeline (the
  templates of \<open>langchain_referee.py\<close> and the coach's prompts; the prompts of
  \<open>llm.py\<close> are modelled): their text only reaches the chat models, whose answers
  are inputs of the model, and rendering them needs Python's \<open>repr\<close> of the JSON
  step dictionaries in \<open>SOP_STEPS\<close>, of which the model keeps only the fields the
  code reads; the chat models themselves; the content of a parsed reply beyond its
  shape (a non-empty object is taken to carry the schema's keys, so a subscript of a
  missing key in a non-empty object is not modelled); a step number or description
  that is not an integer or a string; printing, except where it can raise or, after
  the loop, where it is the program's report (\<open>simulation_report\<close>); the embedding
  model, the vector store and the chat model of the retrieval flow (parameters of
  \<open>Research\<close>); the Neo4j driver behind \<open>ResearchTools.search_graph\<close> (an
  oracle); the client objects of \<open>drivers.py\<close> beyond the values they are built
  from (the retrieval flow takes its store as a parameter instead of the client that
  \<open>drivers.py\<close> builds when imported), and the HTTP request of the status check
  (an oracle); non-ASCII digits in \<open>int(s)\<close>. The orchestrator's conditional
  edges are registered by passing a dictionary where LangGraph expects a routing
  function; the model follows their evident intent (route on \<open>next_node\<close>).
\<close>

section \<open>Concrete sessions\<close>

definition demo_step :: "int \<Rightarrow> string \<Rightarrow> sop_step" where
  "demo_step n d =
     \<lparr>step_name = d, step_number = n,
      rubric = Key_value \<lparr>description = Key_value d, example_message = []\<rparr>\<rparr>"

definition demo_steps :: "sop_step list" where
  "demo_steps =
     [demo_step 1 ''acknowledge issue'', demo_step 2 ''ask for order details'',
      demo_step 3 ''check eligibility'', demo_step 4 ''set timeline'',
      demo_step 5 ''status update'', demo_step 6 ''confirm refund'']"

definition pass_verdict :: grader_json where
  "pass_verdict = \<lparr>g_message = ''good'', g_current_step = 0, step_passed = True\<rparr>"

definition audit :: "string \<Rightarrow> referee_json" where
  "audit g =
     \<lparr>referee_grade = g, r_message = Some ''checked'', r_feedback = None,
      must_regenerate = (g \<noteq> ''pass'')\<rparr>"

text \<open>
  Every step passed and confirmed at the first attempt, with an empty reply after each
  coach turn: the empty reply gets the
  no-message verdict, no audit, and ends the invocation, so each invocation stays
  within the budget.
\<close>

definition paced_answers :: "answer list" where
  "paced_answers =
     [Coach_says ''Welcome.'', User_types ''''] @
     concat (map (\<lambda>i::int. [User_types ''my answer'', Grader_says ''{}'' (Some (Object pass_verdict)),
        Referee_says (Some (Object (audit ''pass'')))] @
        (if i < 6 then [Coach_says ''Next.'', User_types ''''] else [])) [1..6])"

text \<open>The catalog \<open>run_simulation\<close> loads from \<open>demo_steps\<close>.\<close>

definition demo_catalog :: catalog where
  "demo_catalog = fold (\<lambda>st m. m(step_number st \<mapsto> st)) demo_steps Map.empty"

section \<open>Properties of whole sessions\<close>

text \<open>
  C11. A session that \<open>run_simulation\<close> finishes without an exception is complete:
  the completion flag is set and the procedure stands at step 6.
\<close>

theorem run_simulation_done:
  assumes "run_simulation steps as = Some (Inr (s', as'))"
  shows "done_flag s' \<and> current_step s' = FINAL_STEP"
proof -
  from assms obtain sop where "drive (Suc (length as)) sop init_state as = Some (Inr (s', as'))"
    by (auto simp: run_simulation_def split: sum.splits)
  from drive_frame [OF wf_init_state this] have "wf_state s' \<and> done_flag s'" by simp
  then show ?thesis by (simp add: wf_state_def)
qed

theorem run_simulation_done_witness:
  "\<exists>s'. run_simulation demo_steps paced_answers = Some (Inr (s', [])) \<and>
        done_flag s' \<and> current_step s' = 6"
proof -
  have "map_option (map_sum id snd) (run_simulation demo_steps paced_answers) = Some (Inr [])"
    by code_simp
  then obtain x where "run_simulation demo_steps paced_answers = Some (Inr x)" "snd x = []"
    by (auto dest!: map_sum_Inr_exists)
  then obtain s' where r: "run_simulation demo_steps paced_answers = Some (Inr (s', []))"
    by (cases x) auto
  from run_simulation_done [OF r] r show ?thesis by auto
qed

text \<open>
  C27. The report of a finished session: the completion banner, then the history
  between its two rules, one block of three lines per entry (number, role and text,
  separator), or the one line saying no step was completed.
\<close>

theorem simulation_report_shows_history:
  assumes "run_simulation steps as = Some (Inr (s', as'))"
  shows "\<exists>ls. simulation_report steps as =
           Some (Inr (done_banner # ''\<newline>=== Simulation History ==='' # ls @
                      [''=== End Simulation History ===''])) \<and>
         length ls = (if history s' = [] then 1 else 3 * length (history s'))"
proof -
  from assms obtain sop where d: "drive (Suc (length as)) sop init_state as = Some (Inr (s', as'))"
    by (auto simp: run_simulation_def split: sum.splits)
  from drive_frame [OF wf_init_state d] have "done_flag s'" by simp
  moreover have "Null_entry \<notin> set (history s')"
    using drive_history [OF disjI1 [OF reach.start] d] by simp
  ultimately show ?thesis
    using assms by (auto simp: simulation_report_def final_report_def dest!: history_report_Inr)
qed

theorem simulation_report_shows_history_witness:
  "\<exists>s' ls. run_simulation demo_steps paced_answers = Some (Inr (s', [])) \<and>
     length (history s') = 18 \<and>
     simulation_report demo_steps paced_answers =
       Some (Inr (done_banner # ''\<newline>=== Simulation History ==='' # ls @
                  [''=== End Simulation History ===''])) \<and>
     length ls = 54"
proof -
  have "map_option (map_sum id (\<lambda>(s, r). (length (history s), r)))
          (run_simulation demo_steps paced_answers) = Some (Inr (18, []))"
    by code_simp
  then obtain x where "run_simulation demo_steps paced_answers = Some (Inr x)"
    "(case x of (s, r) \<Rightarrow> (length (history s), r)) = (18, [])"
    by (auto dest!: map_sum_Inr_exists)
  then obtain s' where r: "run_simulation demo_steps paced_answers = Some (Inr (s', []))"
    and l: "length (history s') = 18"
    by (cases x) auto
  from simulation_report_shows_history [OF r] r l show ?thesis by auto
qed

theorem reach_session_completable_witness:
  "\<not> done_flag init_state \<and>
   list_all (step_ready demo_catalog) [current_step init_state..6] \<and>
   (\<exists>as s'. drive (Suc (length as)) demo_catalog init_state as = Some (Inr (s', [])) \<and> done_flag s')"
proof -
  have d: "\<not> done_flag init_state" by (simp add: init_state_def)
  have c: "list_all (step_ready demo_catalog) [current_step init_state..6]"
    by code_simp
  from reach_session_completable [OF reach.start d c] d c show ?thesis by blast
qed

end
